(* ===== verification/Prelude.thy ===== *)
theory Prelude
  imports Complex_Main "HOL-Library.Sublist"
begin

text \<open>
  Shared vocabulary of the balloon-game development: the names of the model's types,
  the JavaScript built-ins the script relies on (array indexing that yields
  \<open>undefined\<close>, number-to-string conversion in template literals with its inverse
  \<open>read_int\<close> and their round trip, \<open>String.prototype.includes\<close>), the UTF-8 bytes of the bear emoji used in the modal
  titles, and the generic list and map lemmas the component theories share.
\<close>

named_theorems handler_defs \<open>definitions of the script's functions, unfolded to evaluate a run\<close>
named_theorems js_eval \<open>evaluation rules of the JavaScript built-ins on literals\<close>
named_theorems dom_simps \<open>frame facts of the DOM and browser primitives\<close>

type_synonym elem_id = nat
type_synonym interval_id = nat

text \<open>
  The script draws random numbers with \<open>Math.random()\<close>. The source of randomness is
  a parameter of the model: the \<open>n\<close>-th call returns \<open>rnd n\<close>. A valid source returns
  values in \<open>[0, 1)\<close>, as \<open>Math.random\<close> does.
\<close>

type_synonym rng = "nat \<Rightarrow> real"

definition valid_rng :: "rng \<Rightarrow> bool" where
  "valid_rng rnd \<longleftrightarrow> (\<forall>n. 0 \<le> rnd n \<and> rnd n < 1)"

text \<open>The only run-time error the script can raise: reading a property of \<open>undefined\<close>.\<close>

datatype js_error = TypeError

text \<open>
  A handler that throws leaves the effects made before the throw in place, so a throwing
  computation returns the error together with the state at the point of the throw.
\<close>

type_synonym 's js_result = "(js_error \<times> 's) + 's"

definition js_bind :: "'s js_result \<Rightarrow> ('s \<Rightarrow> 's js_result) \<Rightarrow> 's js_result" where
  "js_bind r f = (case r of Inl e \<Rightarrow> Inl e | Inr s \<Rightarrow> f s)"

definition js_state :: "'s js_result \<Rightarrow> 's" where
  "js_state r = (case r of Inl (_, s) \<Rightarrow> s | Inr s \<Rightarrow> s)"

lemma js_bind_Inr [simp]: "js_bind (Inr s) f = f s"
  by (simp add: js_bind_def)

lemma js_bind_Inl [simp]: "js_bind (Inl e) f = Inl e"
  by (simp add: js_bind_def)

lemma js_state_simps [simp]:
  "js_state (Inr s) = s" "js_state (Inl (e, s)) = s"
  by (simp_all add: js_state_def)

lemma js_bind_eq_Inr:
  "js_bind r f = Inr t \<longleftrightarrow> (\<exists>s. r = Inr s \<and> f s = Inr t)"
  by (cases r) auto

subsection \<open>Array indexing\<close>

text \<open>\<open>xs[i]\<close> on a JavaScript array: \<open>undefined\<close> (here \<open>None\<close>) outside the bounds.\<close>

definition js_index :: "'a list \<Rightarrow> int \<Rightarrow> 'a option" where
  "js_index xs i = (if 0 \<le> i \<and> i < int (length xs) then Some (xs ! nat i) else None)"

lemma js_index_Some_iff:
  "js_index xs i = Some x \<longleftrightarrow> 0 \<le> i \<and> i < int (length xs) \<and> xs ! nat i = x"
  by (auto simp: js_index_def)

lemma js_index_None_iff:
  "js_index xs i = None \<longleftrightarrow> i < 0 \<or> int (length xs) \<le> i"
  by (auto simp: js_index_def)

subsection \<open>Numbers in template literals\<close>

text \<open>
  \<open>`${n}`\<close> for an integral JavaScript number prints its decimal digits, with a minus
  sign when it is negative. The digits are produced least significant first into an
  accumulator.
\<close>

definition digit_char :: "nat \<Rightarrow> char" where [js_eval]:
  "digit_char d = ''0123456789'' ! d"

fun dec_digits :: "nat \<Rightarrow> string \<Rightarrow> string" where
  "dec_digits n acc =
     (let acc' = digit_char (n mod 10) # acc
      in if n < 10 then acc' else dec_digits (n div 10) acc')"

declare dec_digits.simps [simp del, js_eval]

definition js_num :: "int \<Rightarrow> string" where [js_eval]:
  "js_num i = (if i < 0 then CHR ''-'' # dec_digits (nat (- i)) [] else dec_digits (nat i) [])"

text \<open>Reading decimal digits back: the inverse used to show the display is faithful.\<close>

fun read_digits :: "nat \<Rightarrow> string \<Rightarrow> nat option" where
  "read_digits acc [] = Some acc"
| "read_digits acc (c # cs) =
     (let d = (of_char c :: nat)
      in if 48 \<le> d \<and> d \<le> 57 then read_digits (10 * acc + (d - 48)) cs else None)"

fun dec_len :: "nat \<Rightarrow> nat" where
  "dec_len n = (if n < 10 then 1 else Suc (dec_len (n div 10)))"

declare dec_len.simps [simp del]

lemma of_digit_char: "d < 10 \<Longrightarrow> (of_char (digit_char d) :: nat) = 48 + d"
  by (auto simp: digit_char_def less_Suc_eq numeral_eq_Suc)

lemma read_digits_digit_char:
  "d < 10 \<Longrightarrow> read_digits a (digit_char d # cs) = read_digits (10 * a + d) cs"
  by (simp add: of_digit_char Let_def)

lemma read_dec_digits:
  "read_digits a (dec_digits n cs) = read_digits (a * 10 ^ dec_len n + n) cs"
proof (induction n cs arbitrary: a rule: dec_digits.induct)
  case (1 n acc)
  show ?case
  proof (cases "n < 10")
    case True
    then have "dec_digits n acc = digit_char n # acc"
      by (simp add: dec_digits.simps [of n])
    with True show ?thesis
      by (simp add: dec_len.simps [of n] read_digits_digit_char mult.commute del: read_digits.simps)
  next
    case False
    have "read_digits a (dec_digits n acc)
        = read_digits a (dec_digits (n div 10) (digit_char (n mod 10) # acc))"
      using False by (simp add: dec_digits.simps [of n])
    also have "\<dots> = read_digits (a * 10 ^ dec_len (n div 10) + n div 10)
                       (digit_char (n mod 10) # acc)"
      using "1" False by simp
    also have "\<dots> = read_digits (10 * (a * 10 ^ dec_len (n div 10) + n div 10) + n mod 10) acc"
      by (simp add: read_digits_digit_char del: read_digits.simps)
    also have "10 * (a * 10 ^ dec_len (n div 10) + n div 10) + n mod 10 = a * 10 ^ dec_len n + n"
      using False by (simp add: dec_len.simps [of n] algebra_simps)
    finally show ?thesis .
  qed
qed

lemma read_dec_digits_Nil: "read_digits 0 (dec_digits n []) = Some n"
  by (simp add: read_dec_digits)

lemma dec_digits_inj: "dec_digits m [] = dec_digits n [] \<Longrightarrow> m = n"
  by (metis option.inject read_dec_digits_Nil)

lemma digit_char_not_minus: "d < 10 \<Longrightarrow> digit_char d \<noteq> CHR ''-''"
  using of_digit_char [of d] by auto

lemma dec_digits_hd_not_minus: "dec_digits n acc \<noteq> CHR ''-'' # cs"
proof (induction n acc rule: dec_digits.induct)
  case (1 n acc)
  then show ?case
    by (simp add: dec_digits.simps [of n] Let_def digit_char_not_minus)
qed

text \<open>Reading an integer back from its printed form: an optional minus sign and digits.\<close>

definition read_int :: "string \<Rightarrow> int option" where
  "read_int cs =
     (case cs of
        c # ds \<Rightarrow> if c = CHR ''-'' then map_option (\<lambda>n. - int n) (read_digits 0 ds)
                 else map_option int (read_digits 0 cs)
      | [] \<Rightarrow> map_option int (read_digits 0 cs))"

lemma dec_digits_not_Nil: "dec_digits n acc \<noteq> []"
proof (induction n acc rule: dec_digits.induct)
  case (1 n acc)
  then show ?case by (simp add: dec_digits.simps [of n] Let_def)
qed

lemma read_int_js_num: "read_int (js_num i) = Some i"
proof (cases "i < 0")
  case True
  then show ?thesis by (simp add: read_int_def js_num_def read_dec_digits_Nil)
next
  case False
  obtain c cs where dc: "dec_digits (nat i) [] = c # cs"
    using dec_digits_not_Nil [of "nat i" "[]"] by (cases "dec_digits (nat i) []") simp_all
  have "c \<noteq> CHR ''-''" using dec_digits_hd_not_minus [of "nat i" "[]" cs] dc by auto
  then show ?thesis
    using False dc read_dec_digits_Nil [of "nat i"] by (simp add: read_int_def js_num_def)
qed

subsection \<open>String search\<close>

text \<open>\<open>s.includes(p)\<close>: \<open>p\<close> occurs in \<open>s\<close> at some position.\<close>

fun starts_with :: "string \<Rightarrow> string \<Rightarrow> bool" where
  "starts_with s [] = True"
| "starts_with [] (c # cs) = False"
| "starts_with (x # xs) (c # cs) = (x = c \<and> starts_with xs cs)"

fun js_includes :: "string \<Rightarrow> string \<Rightarrow> bool" where
  "js_includes [] p = (p = [])"
| "js_includes (x # xs) p = (starts_with (x # xs) p \<or> js_includes xs p)"

lemma starts_with_prefix: "starts_with s p \<longleftrightarrow> prefix p s"
  by (induction s p rule: starts_with.induct) auto

lemma js_includes_sublist: "js_includes s p \<longleftrightarrow> sublist p s"
  by (induction s) (simp_all add: starts_with_prefix sublist_Cons_right)

subsection \<open>The bear emoji\<close>

text \<open>
  The modal titles start with U+1F43B (bear face). A \<open>char\<close> is a byte, so the
  emoji is its four UTF-8 bytes; none of them is an ASCII letter, which is all the
  title tests of the script need.
\<close>

definition bear :: string where
  "bear = [CHR 0xF0, CHR 0x9F, CHR 0x90, CHR 0xBB]"

subsection \<open>Lists and maps\<close>

lemma removeAll_eq_Nil_iff: "removeAll x xs = [] \<longleftrightarrow> set xs \<subseteq> {x}"
  by (induction xs) auto

lemma length_removeAll_distinct:
  "distinct xs \<Longrightarrow> x \<in> set xs \<Longrightarrow> Suc (length (removeAll x xs)) = length xs"
  by (induction xs) (auto simp: removeAll_id)

lemma dom_subset_option_card:
  "dom m \<subseteq> set_option h \<Longrightarrow> card (dom m) \<le> 1"
  by (cases h) (auto intro: card_mono [of "{_}", simplified])

end
