(* ===== verification/Page.thy ===== *)
theory Page
  imports Prelude
begin

text \<open>
  The state of the running page as one record: the script's three globals
  (\<open>score\<close>, \<open>level\<close>, \<open>timer\<close> of \<^verbatim>\<open>src/script.js\<close> lines 12--14), the browser's
  table of active intervals, the part of the DOM the script reads and writes (the
  balloons under \<open>#target-area\<close>, the score and timer displays, the modal and its
  texts), the audio element and the count of \<open>Math.random()\<close> calls made so far.
  Below it, the browser primitives the script calls (\<open>setInterval\<close>,
  \<open>clearInterval\<close>, \<open>Math.random\<close>, \<open>innerHTML = ''\<close>, \<open>appendChild\<close>,
  \<open>remove\<close>) as state transformers, with their frame facts.
\<close>

text \<open>A balloon \<open>div\<close>: its inline style as the script sets it (lines 79--84).\<close>

record balloon =
  style_left :: real
  style_top :: real
  style_transform :: string

record page =
  score :: int
  level :: int
  timer :: "interval_id option"
  intervals :: "interval_id \<rightharpoonup> int"
  next_interval :: nat
  elems :: "elem_id \<rightharpoonup> balloon"
  area :: "elem_id list"
  next_elem :: nat
  score_text :: string
  timer_text :: string
  modal_hidden :: bool
  modal_title :: string
  modal_instructor :: string
  modal_message :: string
  button_text :: string
  sound_time :: real
  sound_plays :: nat
  sound_loaded :: bool
  draws :: nat

text \<open>
  \<open>intervals\<close> maps the id of each interval that is still scheduled to the value of the
  \<open>timeLeft\<close> variable its callback closes over; the only callback the script ever
  schedules is the countdown of \<open>startTimer\<close>. \<open>timer = None\<close> is the initial
  \<open>undefined\<close> of \<open>let timer;\<close>. \<open>elems\<close> holds every element the script has
  created with class \<open>balloon\<close>, attached or not; \<open>area\<close> lists the children of
  \<open>#target-area\<close> in document order.
\<close>

subsection \<open>Timers\<close>

definition clearInterval :: "interval_id option \<Rightarrow> page \<Rightarrow> page" where
  "clearInterval h s =
     (case h of None \<Rightarrow> s | Some i \<Rightarrow> s\<lparr>intervals := (intervals s)(i := None)\<rparr>)"

text \<open>\<open>setInterval(cb, 1000)\<close> for the countdown closure with counter \<open>t\<close>: a fresh id.\<close>

definition setInterval :: "int \<Rightarrow> page \<Rightarrow> interval_id \<times> page" where
  "setInterval t s =
     (next_interval s,
      s\<lparr>intervals := (intervals s)(next_interval s \<mapsto> t), next_interval := Suc (next_interval s)\<rparr>)"

subsection \<open>Randomness\<close>

definition math_random :: "rng \<Rightarrow> page \<Rightarrow> real \<times> page" where
  "math_random rnd s = (rnd (draws s), s\<lparr>draws := Suc (draws s)\<rparr>)"

subsection \<open>The target area\<close>

definition clear_area :: "page \<Rightarrow> page" where
  "clear_area s = s\<lparr>area := []\<rparr>"

text \<open>\<open>createElement('div')\<close>, \<open>classList.add('balloon')\<close>, then \<open>appendChild\<close>.\<close>

definition append_balloon :: "balloon \<Rightarrow> page \<Rightarrow> page" where
  "append_balloon b s =
     s\<lparr>elems := (elems s)(next_elem s \<mapsto> b), area := area s @ [next_elem s],
       next_elem := Suc (next_elem s)\<rparr>"

text \<open>\<open>el.remove()\<close>: detaches the element; a detached element is left as it is.\<close>

definition remove_elem :: "elem_id \<Rightarrow> page \<Rightarrow> page" where
  "remove_elem e s = s\<lparr>area := removeAll e (area s)\<rparr>"

lemmas dom_prims [handler_defs] =
  clearInterval_def setInterval_def math_random_def clear_area_def append_balloon_def
  remove_elem_def

subsection \<open>Frame facts\<close>

lemma clearInterval_frame [simp, dom_simps]:
  "score (clearInterval h s) = score s" "level (clearInterval h s) = level s"
  "timer (clearInterval h s) = timer s" "area (clearInterval h s) = area s"
  "elems (clearInterval h s) = elems s" "next_elem (clearInterval h s) = next_elem s"
  "next_interval (clearInterval h s) = next_interval s"
  "modal_hidden (clearInterval h s) = modal_hidden s"
  "modal_title (clearInterval h s) = modal_title s"
  "score_text (clearInterval h s) = score_text s" "draws (clearInterval h s) = draws s"
  "timer_text (clearInterval h s) = timer_text s" "sound_plays (clearInterval h s) = sound_plays s"
  "sound_time (clearInterval h s) = sound_time s" "sound_loaded (clearInterval h s) = sound_loaded s"
  "modal_instructor (clearInterval h s) = modal_instructor s"
  "modal_message (clearInterval h s) = modal_message s"
  "button_text (clearInterval h s) = button_text s"
  by (simp_all add: clearInterval_def split: option.split)

lemma intervals_clearInterval [dom_simps]:
  "intervals (clearInterval h s) = (case h of None \<Rightarrow> intervals s | Some i \<Rightarrow> (intervals s)(i := None))"
  by (simp add: clearInterval_def split: option.split)

lemma clearInterval_update_commute:
  "clearInterval h (s\<lparr>modal_hidden := b\<rparr>) = (clearInterval h s)\<lparr>modal_hidden := b\<rparr>"
  by (simp add: clearInterval_def split: option.split)

lemma dom_clearInterval_subset [dom_simps]:
  "dom (intervals s) \<subseteq> set_option h \<Longrightarrow> intervals (clearInterval h s) = Map.empty"
  unfolding clearInterval_def by (auto simp: fun_eq_iff dom_def subset_iff split: option.split)

lemma clearInterval_idle [dom_simps]:
  "intervals s = Map.empty \<Longrightarrow> intervals (clearInterval h s) = Map.empty"
  by (simp add: clearInterval_def fun_eq_iff split: option.split)

lemma append_balloon_simps [simp, dom_simps]:
  "area (append_balloon b s) = area s @ [next_elem s]"
  "elems (append_balloon b s) = (elems s)(next_elem s \<mapsto> b)"
  "next_elem (append_balloon b s) = Suc (next_elem s)"
  "score (append_balloon b s) = score s" "level (append_balloon b s) = level s"
  "timer (append_balloon b s) = timer s" "intervals (append_balloon b s) = intervals s"
  "draws (append_balloon b s) = draws s" "next_interval (append_balloon b s) = next_interval s"
  by (simp_all add: append_balloon_def)

subsection \<open>Well-formed DOM\<close>

text \<open>
  The bookkeeping every reachable page satisfies: the children of the target area are
  distinct balloons the script created, and the counters that name the next element and
  the next interval are fresh.
\<close>

definition dom_wf :: "page \<Rightarrow> bool" where
  "dom_wf s \<longleftrightarrow> distinct (area s) \<and> set (area s) \<subseteq> dom (elems s)
     \<and> (\<forall>e \<in> dom (elems s). e < next_elem s)
     \<and> (\<forall>i \<in> dom (intervals s). i < next_interval s)"

lemma dom_wf_append_balloon [dom_simps]: "dom_wf s \<Longrightarrow> dom_wf (append_balloon b s)"
  unfolding dom_wf_def by (force simp: less_Suc_eq)

lemma dom_wf_clearInterval [dom_simps]: "dom_wf s \<Longrightarrow> dom_wf (clearInterval h s)"
  by (cases h) (auto simp: dom_wf_def clearInterval_def)

lemma dom_wf_setInterval [dom_simps]: "dom_wf s \<Longrightarrow> dom_wf (snd (setInterval t s))"
  unfolding dom_wf_def setInterval_def by (force simp: less_Suc_eq)

lemma dom_wf_remove_elem [dom_simps]: "dom_wf s \<Longrightarrow> dom_wf (remove_elem e s)"
  by (auto simp: dom_wf_def remove_elem_def distinct_removeAll)

lemma dom_wf_clear_area [dom_simps]: "dom_wf s \<Longrightarrow> dom_wf (clear_area s)"
  by (simp add: dom_wf_def clear_area_def)

end
