(* ===== verification/Config.thy ===== *)
theory Config
  imports Page
begin

text \<open>
  The level table of \<^verbatim>\<open>src/script.js\<close> (lines 16--23) and its lookup
  \<open>levels[level - 1]\<close>, which is \<open>undefined\<close> (\<open>None\<close>) outside levels 1--3.
  The table's fields are JavaScript numbers and strings; they are \<open>int\<close> and
  \<open>string\<close> here.
\<close>

record level_config =
  numBalloons :: int
  time :: int
  distance :: string

definition levels :: "level_config list" where
  "levels =
     [\<lparr>numBalloons = 15, time = 0, distance = ''near''\<rparr>,
      \<lparr>numBalloons = 15, time = 0, distance = ''far''\<rparr>,
      \<lparr>numBalloons = 20, time = 15, distance = ''far''\<rparr>]"

definition currentLevelConfig :: "int \<Rightarrow> level_config option" where
  "currentLevelConfig l = js_index levels (l - 1)"

lemma currentLevelConfig_cases [simp]:
  "currentLevelConfig 1 = Some \<lparr>numBalloons = 15, time = 0, distance = ''near''\<rparr>"
  "currentLevelConfig 2 = Some \<lparr>numBalloons = 15, time = 0, distance = ''far''\<rparr>"
  "currentLevelConfig 3 = Some \<lparr>numBalloons = 20, time = 15, distance = ''far''\<rparr>"
  by (simp_all add: currentLevelConfig_def levels_def js_index_def)

lemma currentLevelConfig_Some_iff:
  "(\<exists>c. currentLevelConfig l = Some c) \<longleftrightarrow> 1 \<le> l \<and> l \<le> 3"
  by (auto simp: currentLevelConfig_def levels_def js_index_def)

lemma currentLevelConfig_in_range:
  "currentLevelConfig l = Some c \<Longrightarrow> l \<in> {1, 2, 3}"
  using currentLevelConfig_Some_iff [of l] by auto

lemma currentLevelConfig_positive:
  "currentLevelConfig l = Some c \<Longrightarrow> 0 < numBalloons c \<and> 0 \<le> time c"
  using currentLevelConfig_in_range [of l c] by auto

lemma currentLevelConfig_timed_iff:
  "currentLevelConfig l = Some c \<Longrightarrow> 0 < time c \<longleftrightarrow> l = 3"
  using currentLevelConfig_in_range [of l c] by auto

end
