(* ===== verification/Summary.thy ===== *)
theory Summary
  imports Config
begin

text \<open>
  The end-of-level summary, \<open>endLevel\<close> of \<^verbatim>\<open>src/script.js\<close> (lines 90--120): it
  cancels the countdown named by \<open>timer\<close>, shows the modal and fills its title,
  instructions, message and button according to \<open>timeExpired\<close> and \<open>level\<close>. The
  prize tier of the game-over message (line 115) is \<open>prize\<close>. The lemmas give each of
  the three branches, what the function leaves alone, and which titles contain the
  text \<open>GAME OVER\<close> that \<open>nextLevel\<close> later searches for.
\<close>

definition prize :: "int \<Rightarrow> string" where
  "prize sc = (if 100 \<le> sc then ''BIG PRIZE'' else if 50 \<le> sc then ''MEDIUM PRIZE'' else ''SMALL PRIZE'')"

definition title_time_up :: string where
  "title_time_up = bear @ '' TIME'S UP!''"

definition title_great_job :: string where
  "title_great_job = bear @ '' GREAT JOB!''"

definition title_game_over :: string where
  "title_game_over = bear @ '' GAME OVER!''"

definition endLevel :: "bool \<Rightarrow> page \<Rightarrow> page" where
  "endLevel timeExpired s =
     (let s1 = (clearInterval (timer s) s)\<lparr>modal_hidden := False\<rparr> in
      if timeExpired then
        s1\<lparr>modal_title := title_time_up,
           modal_instructor := ''You need to shoot faster! Click 'Try Again' to continue.'',
           modal_message := ''You missed some balloons! Score: '' @ js_num (score s) @ ''.'',
           button_text := ''Try Again?''\<rparr>
      else if level s < 3 then
        s1\<lparr>modal_title := title_great_job,
           modal_instructor :=
             (if level s = 1 then ''Instructions: Shoot 15 balloons. They will be SMALLER this time!''
              else if level s = 2 then ''Instructions: Shoot 20 balloons in 15 seconds! Speed is key!''
              else modal_instructor s),
           modal_message := ''Level '' @ js_num (level s) @ '' complete! Preparing for Level ''
                              @ js_num (level s + 1) @ ''...'',
           button_text := ''Start Level '' @ js_num (level s + 1)\<rparr>
      else
        s1\<lparr>modal_title := title_game_over,
           modal_instructor := ''You've earned your prize! Thanks for playing.'',
           modal_message := ''Final Score: '' @ js_num (score s) @ ''! You win the ''
                              @ prize (score s) @ ''!'',
           button_text := ''Play Again?''\<rparr>)"

declare endLevel_def [handler_defs]

lemmas titles_defs [js_eval] = title_time_up_def title_great_job_def title_game_over_def bear_def

subsection \<open>What the summary changes and what it keeps\<close>

lemma endLevel_frame [simp]:
  "score (endLevel b s) = score s" "level (endLevel b s) = level s"
  "timer (endLevel b s) = timer s" "area (endLevel b s) = area s"
  "elems (endLevel b s) = elems s" "next_elem (endLevel b s) = next_elem s"
  "next_interval (endLevel b s) = next_interval s" "score_text (endLevel b s) = score_text s"
  "timer_text (endLevel b s) = timer_text s" "draws (endLevel b s) = draws s"
  "sound_plays (endLevel b s) = sound_plays s"
  "modal_hidden (endLevel b s) = False"
  by (simp_all add: endLevel_def Let_def)

lemma intervals_endLevel:
  "intervals (endLevel b s) = intervals (clearInterval (timer s) s)"
  by (simp add: endLevel_def Let_def)

text \<open>Where \<open>timer\<close> names every scheduled interval, the summary leaves none scheduled.\<close>

lemma endLevel_cancels:
  "dom (intervals s) \<subseteq> set_option (timer s) \<Longrightarrow> intervals (endLevel b s) = Map.empty"
  by (simp add: intervals_endLevel dom_clearInterval_subset)

lemma dom_wf_endLevel: "dom_wf s \<Longrightarrow> dom_wf (endLevel b s)"
  using dom_wf_clearInterval [of s "timer s"]
  by (simp add: dom_wf_def intervals_endLevel)

lemma modal_title_endLevel:
  "modal_title (endLevel b s) =
     (if b then title_time_up else if level s < 3 then title_great_job else title_game_over)"
  by (simp add: endLevel_def Let_def)

subsection \<open>The title test of \<open>nextLevel\<close>\<close>

lemma titles_includes_game_over [simp]:
  "js_includes title_game_over ''GAME OVER''"
  "\<not> js_includes title_great_job ''GAME OVER''"
  "\<not> js_includes title_time_up ''GAME OVER''"
  by (simp_all add: titles_defs)

lemma titles_distinct [simp]:
  "title_time_up \<noteq> title_great_job" "title_time_up \<noteq> title_game_over"
  "title_great_job \<noteq> title_game_over"
  "title_great_job \<noteq> title_time_up" "title_game_over \<noteq> title_time_up"
  "title_game_over \<noteq> title_great_job"
  by (simp_all add: titles_defs)

end
