(* ===== verification/Countdown.thy ===== *)
theory Countdown
  imports Summary
begin

text \<open>
  The countdown of \<^verbatim>\<open>src/script.js\<close>: \<open>startTimer\<close> (lines 49--66) cancels the
  interval named by \<open>timer\<close>, reads the level's time limit and, when it is positive,
  schedules a one-second interval whose closure holds \<open>timeLeft\<close>; the interval's
  callback (lines 55--62) is \<open>countdown_tick\<close>. A tick decrements the counter, shows
  it, and at zero cancels \<open>timer\<close> and calls \<open>endLevel(true)\<close>.
\<close>

definition startTimer :: "page \<Rightarrow> page js_result" where
  "startTimer s =
     (let s1 = clearInterval (timer s) s in
      case currentLevelConfig (level s1) of
        None \<Rightarrow> Inl (TypeError, s1)
      | Some cfg \<Rightarrow>
          (let timeLeft = time cfg in
           if 0 < timeLeft then
             (let s2 = s1\<lparr>timer_text := ''TIMER: '' @ js_num timeLeft\<rparr>;
                  (i, s3) = setInterval timeLeft s2
              in Inr (s3\<lparr>timer := Some i\<rparr>))
           else Inr (s1\<lparr>timer_text := ''TIMER: --''\<rparr>)))"

text \<open>
  The callback of interval \<open>i\<close>. The browser runs it only while \<open>i\<close> is scheduled;
  on a cancelled id it does nothing.
\<close>

definition countdown_tick :: "interval_id \<Rightarrow> page \<Rightarrow> page" where
  "countdown_tick i s =
     (case intervals s i of
        None \<Rightarrow> s
      | Some t \<Rightarrow>
          (let t' = t - 1;
               s1 = s\<lparr>intervals := (intervals s)(i \<mapsto> t'), timer_text := ''TIMER: '' @ js_num t'\<rparr>
           in if t' \<le> 0 then endLevel True (clearInterval (timer s1) s1) else s1))"

declare startTimer_def [handler_defs] countdown_tick_def [handler_defs]

subsection \<open>startTimer\<close>

lemma startTimer_untimed:
  assumes "currentLevelConfig (level s) = Some cfg" and "time cfg \<le> 0"
  shows "startTimer s = Inr ((clearInterval (timer s) s)\<lparr>timer_text := ''TIMER: --''\<rparr>)"
  using assms by (simp add: startTimer_def)

lemma startTimer_timed:
  assumes "currentLevelConfig (level s) = Some cfg" and "0 < time cfg"
  shows "startTimer s = Inr ((clearInterval (timer s) s)\<lparr>
            timer_text := ''TIMER: '' @ js_num (time cfg),
            intervals := (intervals (clearInterval (timer s) s))(next_interval s \<mapsto> time cfg),
            next_interval := Suc (next_interval s), timer := Some (next_interval s)\<rparr>)"
  using assms by (simp add: startTimer_def setInterval_def Let_def)

lemma startTimer_error:
  "currentLevelConfig (level s) = None \<Longrightarrow> startTimer s = Inl (TypeError, clearInterval (timer s) s)"
  by (simp add: startTimer_def)

lemma startTimer_Inr:
  "currentLevelConfig (level s) \<noteq> None \<Longrightarrow> \<exists>s'. startTimer s = Inr s'"
  by (auto simp: startTimer_def Let_def split: prod.split)

lemma startTimer_frame:
  assumes "startTimer s = Inr s'"
  shows "score s' = score s" "level s' = level s" "area s' = area s" "elems s' = elems s"
    "next_elem s' = next_elem s" "draws s' = draws s" "modal_hidden s' = modal_hidden s"
    "modal_title s' = modal_title s" "score_text s' = score_text s"
    "next_interval s' \<ge> next_interval s"
  using assms by (auto simp: startTimer_def setInterval_def Let_def split: option.splits if_splits)

text \<open>
  After \<open>startTimer\<close> the scheduled intervals are at most the one \<open>timer\<close> names, if
  the ones scheduled before were at most the one \<open>timer\<close> named: the cancellation at
  line 50 is what keeps a stale countdown from surviving into the next level.
\<close>

lemma startTimer_single:
  assumes "startTimer s = Inr s'" and "dom (intervals s) \<subseteq> set_option (timer s)"
  shows "dom (intervals s') \<subseteq> set_option (timer s')"
  using assms dom_clearInterval_subset [of s "timer s"]
  by (auto simp: startTimer_def setInterval_def Let_def split: option.splits if_splits)

lemma startTimer_counter:
  assumes "startTimer s = Inr s'" and "dom (intervals s) \<subseteq> set_option (timer s)"
    and "intervals s' i = Some t"
  shows "level s = 3 \<and> t = 15"
proof -
  from assms(1) obtain cfg where cfg: "currentLevelConfig (level s) = Some cfg"
    by (auto simp: startTimer_def Let_def split: option.splits)
  show ?thesis
  proof (cases "0 < time cfg")
    case True
    with cfg currentLevelConfig_timed_iff [OF cfg] assms show ?thesis
      using dom_clearInterval_subset [of s "timer s"]
      by (auto simp: startTimer_timed split: if_splits)
  next
    case False
    with cfg assms show ?thesis
      using dom_clearInterval_subset [of s "timer s"]
      by (auto simp: startTimer_untimed)
  qed
qed

lemma dom_wf_startTimer:
  "dom_wf s \<Longrightarrow> startTimer s = Inr s' \<Longrightarrow> dom_wf s'"
  using dom_wf_clearInterval [of s "timer s"]
  by (auto simp: startTimer_def setInterval_def Let_def dom_wf_def less_Suc_eq
           split: option.splits if_splits)

subsection \<open>The callback\<close>

lemma countdown_tick_inactive: "intervals s i = None \<Longrightarrow> countdown_tick i s = s"
  by (simp add: countdown_tick_def)

lemma countdown_tick_continue:
  assumes "intervals s i = Some t" and "1 < t"
  shows "countdown_tick i s =
           s\<lparr>intervals := (intervals s)(i \<mapsto> t - 1), timer_text := ''TIMER: '' @ js_num (t - 1)\<rparr>"
  using assms by (simp add: countdown_tick_def Let_def)

lemma countdown_tick_expire:
  assumes "intervals s i = Some t" and "t \<le> 1"
  shows "countdown_tick i s =
           endLevel True (clearInterval (timer s)
             (s\<lparr>intervals := (intervals s)(i \<mapsto> t - 1), timer_text := ''TIMER: '' @ js_num (t - 1)\<rparr>))"
  using assms by (simp add: countdown_tick_def Let_def)

lemma countdown_tick_frame [simp]:
  "score (countdown_tick i s) = score s" "level (countdown_tick i s) = level s"
  "timer (countdown_tick i s) = timer s" "area (countdown_tick i s) = area s"
  "elems (countdown_tick i s) = elems s" "next_elem (countdown_tick i s) = next_elem s"
  "next_interval (countdown_tick i s) = next_interval s" "draws (countdown_tick i s) = draws s"
  "score_text (countdown_tick i s) = score_text s"
  by (simp_all add: countdown_tick_def Let_def split: option.split)

subsection \<open>Repeated firing\<close>

text \<open>The page while the countdown shows \<open>u\<close>: the closure's counter and the display.\<close>

definition counting :: "interval_id \<Rightarrow> int \<Rightarrow> page \<Rightarrow> page" where
  "counting i u s = s\<lparr>intervals := (intervals s)(i \<mapsto> u), timer_text := ''TIMER: '' @ js_num u\<rparr>"

lemma counting_counting [simp]: "counting i u (counting i v s) = counting i u s"
  by (simp add: counting_def)

lemma counting_simps [simp]:
  "intervals (counting i u s) = (intervals s)(i \<mapsto> u)" "timer (counting i u s) = timer s"
  "modal_hidden (counting i u s) = modal_hidden s" "modal_title (counting i u s) = modal_title s"
  "score (counting i u s) = score s" "level (counting i u s) = level s" "area (counting i u s) = area s"
  by (simp_all add: counting_def)

text \<open>Before the last second: \<open>k + 1\<close> firings count down by \<open>k + 1\<close>.\<close>

lemma countdown_ticks_running:
  assumes "intervals s i = Some t" and "int (Suc k) < t"
  shows "(countdown_tick i ^^ Suc k) s = counting i (t - int (Suc k)) s"
  using assms(2)
proof (induction k)
  case 0
  then show ?case
    using assms(1) by (simp add: countdown_tick_continue counting_def)
next
  case (Suc k)
  then have IH: "(countdown_tick i ^^ Suc k) s = counting i (t - int (Suc k)) s" by simp
  have "intervals (counting i (t - int (Suc k)) s) i = Some (t - int (Suc k))" by simp
  moreover have "1 < t - int (Suc k)" using Suc.prems by simp
  ultimately have "countdown_tick i (counting i (t - int (Suc k)) s)
      = counting i (t - int (Suc k) - 1) (counting i (t - int (Suc k)) s)"
    by (simp add: countdown_tick_continue counting_def)
  then show ?case using IH by (simp add: algebra_simps)
qed

text \<open>The \<open>t\<close>-th firing of a countdown at \<open>t\<close> ends the level as timed out.\<close>

lemma countdown_ticks_expire:
  assumes "intervals s i = Some t" and "0 < t"
  shows "(countdown_tick i ^^ nat t) s = endLevel True (clearInterval (timer s) (counting i 0 s))"
proof (cases "t = 1")
  case True
  with assms show ?thesis by (simp add: countdown_tick_expire counting_def)
next
  case False
  define k where "k = nat t - 2"
  have k: "nat t = Suc (Suc k)" and lt: "int (Suc k) < t"
    using assms(2) False by (simp_all add: k_def)
  have one: "t - int (Suc k) = 1" using k assms(2) by simp
  have run: "(countdown_tick i ^^ Suc k) s = counting i 1 s"
    using countdown_ticks_running [OF assms(1) lt] unfolding one .
  have "countdown_tick i (counting i 1 s) = endLevel True (clearInterval (timer s) (counting i 0 s))"
    by (simp add: countdown_tick_expire counting_def)
  then show ?thesis using run k by simp
qed

end
