(* ===== verification/Balloons.thy ===== *)
theory Balloons
  imports Config
begin

text \<open>
  Balloon generation, \<open>generateBalloons\<close> of \<^verbatim>\<open>src/script.js\<close> (lines 68--88): the
  target area is emptied, then the \<open>for\<close> loop creates \<open>config.numBalloons\<close> balloons,
  each placed at \<open>Math.random() * 80 + 10\<close> percent horizontally and then vertically
  (two draws per balloon, \<open>x\<close> first), scaled to 0.6 when the level is \<open>far\<close>.
  Reading \<open>numBalloons\<close> of an \<open>undefined\<close> configuration throws, after the area
  has been emptied. The loop is a \<^theory_text>\<open>function\<close> whose termination measure
  is the number of iterations left, \<open>numBalloons - i\<close>.
\<close>

definition make_balloon :: "level_config \<Rightarrow> real \<Rightarrow> real \<Rightarrow> balloon" where
  "make_balloon config x y =
     \<lparr>style_left = x, style_top = y,
      style_transform = (if distance config = ''far'' then ''scale(0.6)'' else '''')\<rparr>"

function balloon_loop :: "rng \<Rightarrow> level_config \<Rightarrow> int \<Rightarrow> page \<Rightarrow> page" where
  "balloon_loop rnd config i s =
     (if i < numBalloons config then
        (let (r1, s1) = math_random rnd s;
             x = r1 * 80 + 10;
             (r2, s2) = math_random rnd s1;
             y = r2 * 80 + 10
         in balloon_loop rnd config (i + 1) (append_balloon (make_balloon config x y) s2))
      else s)"
  by pat_completeness auto
termination
  by (relation "measure (\<lambda>(_, config, i, _). nat (numBalloons config - i))") auto

declare balloon_loop.simps [simp del]

definition generateBalloons :: "rng \<Rightarrow> level_config option \<Rightarrow> page \<Rightarrow> page js_result" where
  "generateBalloons rnd config s =
     (let s1 = clear_area s in
      case config of None \<Rightarrow> Inl (TypeError, s1) | Some c \<Rightarrow> Inr (balloon_loop rnd c 0 s1))"

declare make_balloon_def [handler_defs] generateBalloons_def [handler_defs]
  balloon_loop.simps [handler_defs]

subsection \<open>What one pass of the loop does\<close>

text \<open>The balloon built from draws \<open>k\<close> and \<open>k + 1\<close> of the random source.\<close>

definition drawn_balloon :: "rng \<Rightarrow> level_config \<Rightarrow> nat \<Rightarrow> balloon" where
  "drawn_balloon rnd config k = make_balloon config (rnd k * 80 + 10) (rnd (Suc k) * 80 + 10)"

lemma balloon_loop_step:
  "i < numBalloons config \<Longrightarrow>
   balloon_loop rnd config i s =
     balloon_loop rnd config (i + 1)
       (append_balloon (drawn_balloon rnd config (draws s)) (s\<lparr>draws := Suc (Suc (draws s))\<rparr>))"
  by (simp add: balloon_loop.simps [of rnd config i] math_random_def drawn_balloon_def)

lemma balloon_loop_stop: "\<not> i < numBalloons config \<Longrightarrow> balloon_loop rnd config i s = s"
  by (simp add: balloon_loop.simps [of rnd config i])

text \<open>
  The whole loop from iteration \<open>i\<close>: it appends \<open>numBalloons - i\<close> fresh elements in
  order, the \<open>k\<close>-th of them built from draws \<open>2k\<close> and \<open>2k + 1\<close> after the ones
  already made, and changes nothing but the DOM and the draw count.
\<close>

definition loop_result :: "rng \<Rightarrow> level_config \<Rightarrow> nat \<Rightarrow> page \<Rightarrow> page" where
  "loop_result rnd config n s =
     s\<lparr>area := area s @ [next_elem s ..< next_elem s + n],
       elems := (\<lambda>e. if next_elem s \<le> e \<and> e < next_elem s + n
                     then Some (drawn_balloon rnd config (draws s + 2 * (e - next_elem s)))
                     else elems s e),
       next_elem := next_elem s + n,
       draws := draws s + 2 * n\<rparr>"

lemma loop_result_Suc:
  "loop_result rnd config n
     (append_balloon (drawn_balloon rnd config (draws s)) (s\<lparr>draws := Suc (Suc (draws s))\<rparr>))
   = loop_result rnd config (Suc n) s"
proof -
  have ar: "\<And>e. Suc (next_elem s) \<le> e \<Longrightarrow>
      Suc (Suc (draws s + 2 * (e - Suc (next_elem s)))) = draws s + 2 * (e - next_elem s)"
    by arith
  have "(\<lambda>e. if Suc (next_elem s) \<le> e \<and> e < Suc (next_elem s) + n
              then Some (drawn_balloon rnd config (Suc (Suc (draws s)) + 2 * (e - Suc (next_elem s))))
              else ((elems s)(next_elem s \<mapsto> drawn_balloon rnd config (draws s))) e)
        = (\<lambda>e. if next_elem s \<le> e \<and> e < next_elem s + Suc n
              then Some (drawn_balloon rnd config (draws s + 2 * (e - next_elem s)))
              else elems s e)"
  proof
    fix e
    show "(if Suc (next_elem s) \<le> e \<and> e < Suc (next_elem s) + n
              then Some (drawn_balloon rnd config (Suc (Suc (draws s)) + 2 * (e - Suc (next_elem s))))
              else ((elems s)(next_elem s \<mapsto> drawn_balloon rnd config (draws s))) e)
        = (if next_elem s \<le> e \<and> e < next_elem s + Suc n
              then Some (drawn_balloon rnd config (draws s + 2 * (e - next_elem s)))
              else elems s e)"
      by (cases "e = next_elem s") (auto simp: ar)
  qed
  moreover have "area s @ [next_elem s] @ [Suc (next_elem s) ..< Suc (next_elem s) + n]
              = area s @ [next_elem s ..< next_elem s + Suc n]"
    by (simp add: upt_rec)
  ultimately show ?thesis
    by (simp add: loop_result_def append_balloon_def cong: if_cong del: upt_Suc)
qed

lemma loop_result_0: "loop_result rnd config 0 s = s"
proof -
  have "(\<lambda>e. if next_elem s \<le> e \<and> e < next_elem s + 0
              then Some (drawn_balloon rnd config (draws s + 2 * (e - next_elem s)))
              else elems s e) = elems s"
    by (auto simp: fun_eq_iff)
  then show ?thesis by (simp add: loop_result_def)
qed

lemma balloon_loop_effect:
  "balloon_loop rnd config i s = loop_result rnd config (nat (numBalloons config - i)) s"
proof (induction "nat (numBalloons config - i)" arbitrary: i s)
  case 0
  then have "\<not> i < numBalloons config" by simp
  with "0" show ?case by (simp add: balloon_loop_stop loop_result_0)
next
  case (Suc k)
  then have lt: "i < numBalloons config" and k: "k = nat (numBalloons config - (i + 1))"
    by simp_all
  have "balloon_loop rnd config i s =
        balloon_loop rnd config (i + 1)
          (append_balloon (drawn_balloon rnd config (draws s)) (s\<lparr>draws := Suc (Suc (draws s))\<rparr>))"
    using lt by (rule balloon_loop_step)
  also have "\<dots> = loop_result rnd config k
          (append_balloon (drawn_balloon rnd config (draws s)) (s\<lparr>draws := Suc (Suc (draws s))\<rparr>))"
    using Suc.hyps(1) [OF k] k by simp
  also have "\<dots> = loop_result rnd config (Suc k) s"
    by (rule loop_result_Suc)
  finally show ?case using Suc.hyps(2) by simp
qed

subsection \<open>generateBalloons\<close>

lemma generateBalloons_undefined:
  "generateBalloons rnd None s = Inl (TypeError, s\<lparr>area := []\<rparr>)"
  by (simp add: generateBalloons_def clear_area_def)

lemma generateBalloons_Some:
  "generateBalloons rnd (Some c) s =
     Inr (loop_result rnd c (nat (numBalloons c)) (s\<lparr>area := []\<rparr>))"
  by (simp add: generateBalloons_def clear_area_def balloon_loop_effect)

text \<open>A balloon built from a valid random source lies in \<open>[10, 90)\<close> both ways.\<close>

lemma drawn_balloon_bounds:
  assumes "valid_rng rnd"
  shows "10 \<le> style_left (drawn_balloon rnd c k) \<and> style_left (drawn_balloon rnd c k) < 90
       \<and> 10 \<le> style_top (drawn_balloon rnd c k) \<and> style_top (drawn_balloon rnd c k) < 90"
  using assms [unfolded valid_rng_def, rule_format, of k]
    assms [unfolded valid_rng_def, rule_format, of "Suc k"]
  by (simp add: drawn_balloon_def make_balloon_def)

lemma drawn_balloon_transform:
  "style_transform (drawn_balloon rnd c k) = (if distance c = ''far'' then ''scale(0.6)'' else [])"
  by (simp add: drawn_balloon_def make_balloon_def)

lemma loop_result_frame [simp]:
  "score (loop_result rnd c n s) = score s" "level (loop_result rnd c n s) = level s"
  "timer (loop_result rnd c n s) = timer s" "intervals (loop_result rnd c n s) = intervals s"
  "next_interval (loop_result rnd c n s) = next_interval s"
  "modal_hidden (loop_result rnd c n s) = modal_hidden s"
  "modal_title (loop_result rnd c n s) = modal_title s"
  "score_text (loop_result rnd c n s) = score_text s"
  "area (loop_result rnd c n s) = area s @ [next_elem s ..< next_elem s + n]"
  "next_elem (loop_result rnd c n s) = next_elem s + n"
  by (simp_all add: loop_result_def)

lemma loop_result_elems_new:
  "next_elem s \<le> e \<Longrightarrow> e < next_elem s + n \<Longrightarrow>
   elems (loop_result rnd c n s) e = Some (drawn_balloon rnd c (draws s + 2 * (e - next_elem s)))"
  by (simp add: loop_result_def)

lemma loop_result_draws: "draws (loop_result rnd c n s) = draws s + 2 * n"
  by (simp add: loop_result_def)

lemma dom_wf_loop_result: "dom_wf s \<Longrightarrow> dom_wf (loop_result rnd c n s)"
  unfolding dom_wf_def loop_result_def
  by (auto simp: dom_def split: if_splits; fastforce)

end
