(* ===== verification/Controller.thy ===== *)
theory Controller
  imports Countdown Balloons
begin

text \<open>
  The event handlers and the level lifecycle of \<^verbatim>\<open>src/script.js\<close>: \<open>updateScore\<close>
  (lines 27--30), \<open>playShootSound\<close> (32--35), the click handler \<open>popBalloon\<close>
  (37--47), \<open>nextLevel\<close> behind the modal's button (122--135), \<open>initAudio\<close>
  (139--144), \<open>startGame\<close> (146--150) and the script's top level (12--14, 158--163).
  A handler that throws (only \<open>levels[level - 1]\<close> can be \<open>undefined\<close>) returns
  the state at the throw.
\<close>

definition updateScore :: "int \<Rightarrow> page \<Rightarrow> page" where
  "updateScore points s =
     (let sc = score s + points in s\<lparr>score := sc, score_text := ''POINTS: '' @ js_num sc\<rparr>)"

text \<open>
  Rewinding and playing the audio element. \<open>play()\<close> returns a promise whose rejection
  (audio unavailable) never reaches the script, so it has no error branch.
\<close>

definition playShootSound :: "page \<Rightarrow> page" where
  "playShootSound s = s\<lparr>sound_time := 0, sound_plays := Suc (sound_plays s)\<rparr>"

text \<open>
  The target of a click on \<open>#target-area\<close>: the area itself, or an element in it.
  \<open>classList.contains('balloon')\<close> holds exactly for the elements the script created.
  The count \<open>document.querySelectorAll('.balloon').length\<close> of line 43 is the length of the
  target area: the document is taken to hold no \<open>.balloon\<close> element outside it.
\<close>

datatype click_target = TargetArea | Elem elem_id

definition popBalloon :: "click_target \<Rightarrow> page \<Rightarrow> page" where
  "popBalloon t s =
     (case t of
        TargetArea \<Rightarrow> s
      | Elem e \<Rightarrow>
          if elems s e \<noteq> None then
            (let s1 = playShootSound s;
                 s2 = updateScore 10 s1;
                 s3 = remove_elem e s2
             in if length (area s3) = 0 then endLevel False s3 else s3)
          else s)"

definition startGame :: "rng \<Rightarrow> page \<Rightarrow> page js_result" where
  "startGame rnd s = js_bind (generateBalloons rnd (currentLevelConfig (level s)) s) startTimer"

definition nextLevel :: "rng \<Rightarrow> page \<Rightarrow> page js_result" where
  "nextLevel rnd s =
     (let s1 = s\<lparr>modal_hidden := True\<rparr>;
          s2 = (if level s1 = 3 \<and> js_includes (modal_title s1) ''GAME OVER''
                then s1\<lparr>score := 0, level := 1, score_text := ''POINTS: 0''\<rparr>
                else if level s1 < 3 then s1\<lparr>level := level s1 + 1\<rparr>
                else s1)
      in startGame rnd s2)"

definition initAudio :: "page \<Rightarrow> page" where
  "initAudio s = s\<lparr>sound_loaded := True, sound_time := 0\<rparr>"

text \<open>
  Loading the script into the document \<open>d\<close> built from the HTML: the globals are
  initialised (\<open>timer\<close> is \<open>undefined\<close>), the listeners are registered (the event
  dispatch of \<open>Game\<close>), then \<open>initAudio()\<close> and \<open>startGame()\<close> run.
\<close>

definition load_script :: "rng \<Rightarrow> page \<Rightarrow> page js_result" where
  "load_script rnd d = startGame rnd (initAudio (d\<lparr>score := 0, level := 1, timer := None\<rparr>))"

declare updateScore_def [handler_defs] playShootSound_def [handler_defs]
  popBalloon_def [handler_defs] startGame_def [handler_defs] nextLevel_def [handler_defs]
  initAudio_def [handler_defs] load_script_def [handler_defs]

subsection \<open>popBalloon\<close>

lemma popBalloon_area [simp]: "popBalloon TargetArea s = s"
  by (simp add: popBalloon_def)

lemma popBalloon_not_balloon: "elems s e = None \<Longrightarrow> popBalloon (Elem e) s = s"
  by (simp add: popBalloon_def)

text \<open>The state after the first three statements of the handler, before the emptiness test.\<close>

definition popped :: "elem_id \<Rightarrow> page \<Rightarrow> page" where
  "popped e s = remove_elem e (updateScore 10 (playShootSound s))"

lemma popBalloon_balloon:
  "elems s e \<noteq> None \<Longrightarrow>
   popBalloon (Elem e) s = (if area (popped e s) = [] then endLevel False (popped e s) else popped e s)"
  by (simp add: popBalloon_def popped_def Let_def)

lemma popped_simps [simp]:
  "score (popped e s) = score s + 10" "level (popped e s) = level s"
  "area (popped e s) = removeAll e (area s)" "elems (popped e s) = elems s"
  "timer (popped e s) = timer s" "intervals (popped e s) = intervals s"
  "next_elem (popped e s) = next_elem s" "next_interval (popped e s) = next_interval s"
  "modal_hidden (popped e s) = modal_hidden s" "modal_title (popped e s) = modal_title s"
  "score_text (popped e s) = ''POINTS: '' @ js_num (score s + 10)"
  "sound_plays (popped e s) = Suc (sound_plays s)" "sound_time (popped e s) = 0"
  "draws (popped e s) = draws s"
  by (simp_all add: popped_def remove_elem_def updateScore_def playShootSound_def Let_def)

text \<open>A click on an element the script created always scores, whether or not it is still shown.\<close>

lemma popBalloon_hit:
  assumes "elems s e \<noteq> None"
  shows "score (popBalloon (Elem e) s) = score s + 10" "elems (popBalloon (Elem e) s) = elems s"
    "area (popBalloon (Elem e) s) = removeAll e (area s)" "level (popBalloon (Elem e) s) = level s"
    "sound_plays (popBalloon (Elem e) s) = Suc (sound_plays s)"
  using assms by (simp_all add: popBalloon_balloon)

lemma dom_wf_popped: "dom_wf s \<Longrightarrow> dom_wf (popped e s)"
  by (auto simp: dom_wf_def distinct_removeAll)

subsection \<open>startGame and nextLevel\<close>

lemma startGame_in_range:
  assumes "currentLevelConfig (level s) = Some c"
  shows "startGame rnd s = startTimer (loop_result rnd c (nat (numBalloons c)) (s\<lparr>area := []\<rparr>))"
  using assms by (simp add: startGame_def generateBalloons_Some)

lemma startGame_undefined:
  "currentLevelConfig (level s) = None \<Longrightarrow> startGame rnd s = Inl (TypeError, s\<lparr>area := []\<rparr>)"
  by (simp add: startGame_def generateBalloons_undefined)

lemma startGame_total:
  assumes "1 \<le> level s" and "level s \<le> 3"
  shows "\<exists>s'. startGame rnd s = Inr s'"
proof -
  obtain c where c: "currentLevelConfig (level s) = Some c"
    using assms currentLevelConfig_Some_iff [of "level s"] by auto
  then have "currentLevelConfig (level (loop_result rnd c (nat (numBalloons c)) (s\<lparr>area := []\<rparr>))) \<noteq> None"
    by simp
  then show ?thesis using c by (simp add: startGame_in_range startTimer_Inr)
qed

text \<open>
  Everything starting a level in range does: a fresh area of \<open>numBalloons\<close> balloons
  drawn from the random source, the previous countdown cancelled and, in a timed level,
  a new one scheduled under a fresh id.
\<close>

lemma startGame_Inr:
  assumes "currentLevelConfig (level s) = Some c"
  obtains s' where "startGame rnd s = Inr s'"
    "area s' = [next_elem s ..< next_elem s + nat (numBalloons c)]"
    "elems s' = elems (loop_result rnd c (nat (numBalloons c)) (s\<lparr>area := []\<rparr>))"
    "score s' = score s" "level s' = level s" "modal_hidden s' = modal_hidden s"
    "modal_title s' = modal_title s" "score_text s' = score_text s"
    "intervals s' = (if 0 < time c then (intervals (clearInterval (timer s) s))(next_interval s \<mapsto> time c)
                     else intervals (clearInterval (timer s) s))"
    "timer s' = (if 0 < time c then Some (next_interval s) else timer s)"
    "timer_text s' = (if 0 < time c then ''TIMER: '' @ js_num (time c) else ''TIMER: --'')"
    "next_elem s' = next_elem s + nat (numBalloons c)"
    "next_interval s' = (if 0 < time c then Suc (next_interval s) else next_interval s)"
    "draws s' = draws s + 2 * nat (numBalloons c)"
proof -
  let ?g = "loop_result rnd c (nat (numBalloons c)) (s\<lparr>area := []\<rparr>)"
  have cg: "currentLevelConfig (level ?g) = Some c" using assms by simp
  have ci: "intervals (clearInterval (timer s) ?g) = intervals (clearInterval (timer s) s)"
    by (simp add: clearInterval_def split: option.split)
  show ?thesis
  proof (cases "0 < time c")
    case True
    show ?thesis
      by (rule that [of "(clearInterval (timer ?g) ?g)\<lparr>timer_text := ''TIMER: '' @ js_num (time c),
            intervals := (intervals (clearInterval (timer ?g) ?g))(next_interval ?g \<mapsto> time c),
            next_interval := Suc (next_interval ?g), timer := Some (next_interval ?g)\<rparr>"])
         (use assms True ci in \<open>simp_all add: startGame_in_range startTimer_timed [OF cg True]
            loop_result_draws\<close>)
  next
    case False
    show ?thesis
      by (rule that [of "(clearInterval (timer ?g) ?g)\<lparr>timer_text := ''TIMER: --''\<rparr>"])
         (use assms False ci in \<open>simp_all add: startGame_in_range startTimer_untimed [OF cg] not_less
            loop_result_draws\<close>)
  qed
qed

text \<open>The level \<open>nextLevel\<close> moves to, and the score it keeps.\<close>

definition next_level_of :: "page \<Rightarrow> page" where
  "next_level_of s =
     (if level s = 3 \<and> js_includes (modal_title s) ''GAME OVER''
      then s\<lparr>modal_hidden := True, score := 0, level := 1, score_text := ''POINTS: 0''\<rparr>
      else if level s < 3 then s\<lparr>modal_hidden := True, level := level s + 1\<rparr>
      else s\<lparr>modal_hidden := True\<rparr>)"

lemma nextLevel_eq: "nextLevel rnd s = startGame rnd (next_level_of s)"
  by (simp add: nextLevel_def next_level_of_def Let_def)

lemma next_level_of_level:
  "level (next_level_of s) =
     (if level s = 3 \<and> js_includes (modal_title s) ''GAME OVER'' then 1
      else if level s < 3 then level s + 1 else level s)"
  by (simp add: next_level_of_def)

lemma next_level_of_frame [simp]:
  "modal_hidden (next_level_of s) = True" "modal_title (next_level_of s) = modal_title s"
  "area (next_level_of s) = area s" "elems (next_level_of s) = elems s"
  "timer (next_level_of s) = timer s" "intervals (next_level_of s) = intervals s"
  "next_elem (next_level_of s) = next_elem s" "next_interval (next_level_of s) = next_interval s"
  by (simp_all add: next_level_of_def)

end
