(* ===== verification/Game.thy ===== *)
theory Game
  imports Controller
begin

text \<open>
  The page as an event system. The script registers two listeners
  (\<^verbatim>\<open>src/script.js\<close> lines 158--159) and the countdown interval: a click on the
  target area runs \<open>popBalloon\<close>, a click on the modal's button runs
  \<open>nextLevel\<close>, and each scheduled interval fires \<open>countdown_tick\<close>. Handlers run
  one at a time to completion, in any order the user and the clock produce; which events
  the browser can deliver depends on the page:
  \<^item> a click reaches a balloon only while it is in the target area;
  \<^item> the button can be clicked only while the modal is shown;
  \<^item> an interval fires only while it is scheduled;
  \<^item> whether the shown modal covers the target area is decided by the style sheet, which
    is not in the repository: \<open>overlay\<close> says it does, so that no balloon can be clicked
    while it is shown.
  \<open>reachable\<close> collects the pages the script can produce from a well-formed document;
  \<open>game_inv\<close> is the invariant every reachable page satisfies, proved one handler at a
  time.
\<close>

datatype event = Click click_target | Tick interval_id | Continue

definition dispatch :: "rng \<Rightarrow> event \<Rightarrow> page \<Rightarrow> page" where
  "dispatch rnd ev s =
     (case ev of
        Click t \<Rightarrow> popBalloon t s
      | Tick i \<Rightarrow> countdown_tick i s
      | Continue \<Rightarrow> js_state (nextLevel rnd s))"

fun deliverable :: "bool \<Rightarrow> page \<Rightarrow> event \<Rightarrow> bool" where
  "deliverable overlay s (Click TargetArea) = (\<not> overlay \<or> modal_hidden s)"
| "deliverable overlay s (Click (Elem e)) = (e \<in> set (area s) \<and> (\<not> overlay \<or> modal_hidden s))"
| "deliverable overlay s (Tick i) = (intervals s i \<noteq> None)"
| "deliverable overlay s Continue = (\<not> modal_hidden s)"

text \<open>
  The document before the script runs (\<^verbatim>\<open>index.html\<close>, not in the repository): an
  empty target area, no interval scheduled, the modal hidden, consistent bookkeeping.
\<close>

definition html_ok :: "page \<Rightarrow> bool" where
  "html_ok d \<longleftrightarrow> area d = [] \<and> intervals d = Map.empty \<and> modal_hidden d \<and> dom_wf d"

inductive reachable :: "bool \<Rightarrow> rng \<Rightarrow> page \<Rightarrow> bool" for overlay rnd where
  load: "html_ok d \<Longrightarrow> reachable overlay rnd (js_state (load_script rnd d))"
| step: "reachable overlay rnd s \<Longrightarrow> deliverable overlay s ev \<Longrightarrow>
           reachable overlay rnd (dispatch rnd ev s)"

text \<open>An executable run of a list of events; \<open>None\<close> when one cannot be delivered.\<close>

fun run :: "bool \<Rightarrow> rng \<Rightarrow> page \<Rightarrow> event list \<Rightarrow> page option" where
  "run overlay rnd s [] = Some s"
| "run overlay rnd s (ev # evs) =
     (if deliverable overlay s ev then run overlay rnd (dispatch rnd ev s) evs else None)"

lemma run_reachable:
  "reachable overlay rnd s \<Longrightarrow> run overlay rnd s evs = Some s' \<Longrightarrow> reachable overlay rnd s'"
proof (induction evs arbitrary: s)
  case Nil
  then show ?case by simp
next
  case (Cons ev evs)
  then have "deliverable overlay s ev" and "run overlay rnd (dispatch rnd ev s) evs = Some s'"
    by (auto split: if_splits)
  moreover have "reachable overlay rnd (dispatch rnd ev s)"
    using Cons.prems(1) calculation(1) by (rule reachable.step)
  ultimately show ?case using Cons.IH by blast
qed

lemma run_append:
  "run overlay rnd s (xs @ ys) = Option.bind (run overlay rnd s xs) (\<lambda>t. run overlay rnd t ys)"
  by (induction xs arbitrary: s) auto

subsection \<open>The invariant\<close>

text \<open>
  What the summary on screen says about the page: a time-out happens only in the timed
  level 3; a cleared level or the end of the game leave no balloon behind.
\<close>

definition summary_ok :: "page \<Rightarrow> bool" where
  "summary_ok s \<longleftrightarrow>
     (modal_title s = title_time_up \<and> level s = 3)
   \<or> (modal_title s = title_great_job \<and> level s < 3 \<and> area s = [])
   \<or> (modal_title s = title_game_over \<and> level s = 3 \<and> area s = [])"

definition game_inv :: "page \<Rightarrow> bool" where
  "game_inv s \<longleftrightarrow> dom_wf s \<and> 1 \<le> level s \<and> level s \<le> 3
     \<and> dom (intervals s) \<subseteq> set_option (timer s)
     \<and> (\<forall>i t. intervals s i = Some t \<longrightarrow> 0 < t \<and> t \<le> 15 \<and> level s = 3 \<and> modal_hidden s)
     \<and> (modal_hidden s \<longrightarrow> area s \<noteq> [])
     \<and> 0 \<le> score s \<and> 10 dvd score s
     \<and> (\<not> modal_hidden s \<longrightarrow> summary_ok s)"

text \<open>
  What \<open>startGame\<close> needs to succeed and establish the invariant: the fields that
  \<open>nextLevel\<close> and the page load hand it.
\<close>

definition start_ok :: "page \<Rightarrow> bool" where
  "start_ok s \<longleftrightarrow> dom_wf s \<and> 1 \<le> level s \<and> level s \<le> 3
     \<and> dom (intervals s) \<subseteq> set_option (timer s) \<and> modal_hidden s
     \<and> 0 \<le> score s \<and> 10 dvd score s"

lemma startGame_inv:
  assumes "start_ok s"
  shows "\<exists>s'. startGame rnd s = Inr s' \<and> game_inv s' \<and> score s' = score s \<and> level s' = level s"
proof -
  from assms obtain c where c: "currentLevelConfig (level s) = Some c"
    using currentLevelConfig_Some_iff [of "level s"] by (auto simp: start_ok_def)
  let ?g = "loop_result rnd c (nat (numBalloons c)) (s\<lparr>area := []\<rparr>)"
  have pos: "0 < numBalloons c" using currentLevelConfig_positive [OF c] by simp
  have g: "dom_wf ?g" "area ?g \<noteq> []" "level ?g = level s" "timer ?g = timer s"
      "intervals ?g = intervals s" "modal_hidden ?g"
    using assms pos dom_wf_loop_result [of "s\<lparr>area := []\<rparr>"]
    by (auto simp: start_ok_def dom_wf_def)
  have cg: "currentLevelConfig (level ?g) = Some c" using c g(3) by simp
  obtain s' where s': "startTimer ?g = Inr s'"
    using cg by (cases "0 < time c") (auto simp: startTimer_timed startTimer_untimed)
  have single: "dom (intervals ?g) \<subseteq> set_option (timer ?g)"
    using assms g by (simp add: start_ok_def)
  have fr: "score s' = score s" "level s' = level s" "area s' = area ?g" "modal_hidden s'"
    using startTimer_frame [OF s'] g by simp_all
  have "dom_wf s'" using dom_wf_startTimer [OF g(1) s'] .
  moreover have "dom (intervals s') \<subseteq> set_option (timer s')"
    using startTimer_single [OF s' single] .
  moreover have "\<forall>i t. intervals s' i = Some t \<longrightarrow> 0 < t \<and> t \<le> 15 \<and> level s' = 3 \<and> modal_hidden s'"
  proof (intro allI impI)
    fix i t
    assume "intervals s' i = Some t"
    then have "level ?g = 3 \<and> t = 15" by (rule startTimer_counter [OF s' single])
    then show "0 < t \<and> t \<le> 15 \<and> level s' = 3 \<and> modal_hidden s'" using fr g by simp
  qed
  ultimately have "game_inv s'"
    using assms fr g by (simp add: game_inv_def start_ok_def)
  then show ?thesis
    using s' fr c by (simp add: startGame_in_range)
qed

subsection \<open>Each handler keeps the invariant\<close>

lemma game_inv_timer:
  "game_inv s \<Longrightarrow> intervals s i = Some t \<Longrightarrow> timer s = Some i"
  by (auto simp: game_inv_def dom_def)

lemma game_inv_shown_idle:
  "game_inv s \<Longrightarrow> \<not> modal_hidden s \<Longrightarrow> intervals s = Map.empty"
  by (auto simp: game_inv_def fun_eq_iff)

lemma load_script_inv:
  assumes "html_ok d"
  shows "\<exists>s'. load_script rnd d = Inr s' \<and> game_inv s'"
proof -
  have "start_ok (initAudio (d\<lparr>score := 0, level := 1, timer := None\<rparr>))"
    using assms by (simp add: html_ok_def start_ok_def initAudio_def dom_wf_def)
  then show ?thesis
    using startGame_inv by (fastforce simp: load_script_def)
qed

lemma nextLevel_inv:
  assumes "game_inv s" and "\<not> modal_hidden s"
  shows "\<exists>s'. nextLevel rnd s = Inr s' \<and> game_inv s'"
proof -
  have idle: "intervals s = Map.empty" using game_inv_shown_idle [OF assms] .
  have "1 \<le> level (next_level_of s) \<and> level (next_level_of s) \<le> 3"
    using assms(1) by (auto simp: game_inv_def next_level_of_level)
  moreover have "dom_wf (next_level_of s)"
    using assms(1) by (simp add: game_inv_def dom_wf_def)
  moreover have "0 \<le> score (next_level_of s) \<and> 10 dvd score (next_level_of s)"
    using assms(1) by (simp add: game_inv_def next_level_of_def)
  ultimately have "start_ok (next_level_of s)"
    using idle by (simp add: start_ok_def)
  then show ?thesis
    using startGame_inv by (fastforce simp: nextLevel_eq)
qed

lemma popBalloon_inv:
  assumes inv: "game_inv s" and del: "deliverable overlay s (Click t)"
  shows "game_inv (popBalloon t s)"
proof (cases t)
  case TargetArea
  with inv show ?thesis by simp
next
  case (Elem e)
  with del have e: "e \<in> set (area s)" by simp
  with inv have bal: "elems s e \<noteq> None" by (auto simp: game_inv_def dom_wf_def)
  let ?p = "popped e s"
  have p: "dom_wf ?p" "level ?p = level s" "intervals ?p = intervals s" "timer ?p = timer s"
      "score ?p = score s + 10" "modal_hidden ?p = modal_hidden s" "modal_title ?p = modal_title s"
    using inv dom_wf_popped [of s e] by (simp_all add: game_inv_def)
  show ?thesis
  proof (cases "area ?p = []")
    case True
    have single: "dom (intervals ?p) \<subseteq> set_option (timer ?p)"
      using inv p by (simp add: game_inv_def)
    have "summary_ok (endLevel False ?p)"
      using True inv by (auto simp: summary_ok_def modal_title_endLevel game_inv_def)
    then show ?thesis
      using True inv p Elem bal endLevel_cancels [OF single, of False] dom_wf_endLevel [OF p(1)]
      by (simp add: popBalloon_balloon game_inv_def)
  next
    case False
    have "\<not> modal_hidden s \<Longrightarrow> summary_ok ?p"
      using inv e by (auto simp: game_inv_def summary_ok_def)
    then show ?thesis
      using False inv p Elem bal by (auto simp: popBalloon_balloon game_inv_def)
  qed
qed

lemma countdown_tick_inv:
  assumes inv: "game_inv s" and act: "intervals s i = Some t"
  shows "game_inv (countdown_tick i s)"
proof -
  have tm: "timer s = Some i" using game_inv_timer [OF inv act] .
  have t: "0 < t" "t \<le> 15" "level s = 3" "modal_hidden s"
    using inv act by (auto simp: game_inv_def)
  show ?thesis
  proof (cases "1 < t")
    case True
    have "dom_wf (countdown_tick i s)"
      using inv act True by (auto simp: countdown_tick_continue game_inv_def dom_wf_def)
    moreover have "\<forall>j u. ((intervals s)(i \<mapsto> t - 1)) j = Some u \<longrightarrow>
        0 < u \<and> u \<le> 15 \<and> level s = 3 \<and> modal_hidden s"
      using inv t True by (auto simp: game_inv_def)
    moreover have "dom ((intervals s)(i \<mapsto> t - 1)) \<subseteq> set_option (timer s)"
      using inv act tm by (auto simp: game_inv_def)
    ultimately show ?thesis
      using inv act True t by (simp add: countdown_tick_continue game_inv_def summary_ok_def)
  next
    case False
    let ?s1 = "s\<lparr>intervals := (intervals s)(i \<mapsto> t - 1), timer_text := ''TIMER: '' @ js_num (t - 1)\<rparr>"
    have c: "intervals (clearInterval (timer s) ?s1) = Map.empty"
      using inv tm by (auto simp: game_inv_def fun_eq_iff dom_def intervals_clearInterval)
    have w: "dom_wf (clearInterval (timer s) ?s1)"
      using c inv by (simp add: game_inv_def dom_wf_def)
    have res: "countdown_tick i s = endLevel True (clearInterval (timer s) ?s1)"
      using act False by (simp add: countdown_tick_expire)
    have "intervals (endLevel True (clearInterval (timer s) ?s1)) = Map.empty"
      using c by (simp add: intervals_endLevel clearInterval_idle)
    moreover have "summary_ok (endLevel True (clearInterval (timer s) ?s1))"
      using t by (simp add: summary_ok_def modal_title_endLevel)
    ultimately show ?thesis
      using res inv dom_wf_endLevel [OF w, of True] by (simp add: game_inv_def)
  qed
qed

lemma dispatch_inv:
  "game_inv s \<Longrightarrow> deliverable overlay s ev \<Longrightarrow> game_inv (dispatch rnd ev s)"
proof (cases ev)
  case (Click t)
  then show "game_inv s \<Longrightarrow> deliverable overlay s ev \<Longrightarrow> game_inv (dispatch rnd ev s)"
    using popBalloon_inv by (simp add: dispatch_def)
next
  case (Tick i)
  then show "game_inv s \<Longrightarrow> deliverable overlay s ev \<Longrightarrow> game_inv (dispatch rnd ev s)"
    using countdown_tick_inv by (auto simp: dispatch_def)
next
  case Continue
  then show "game_inv s \<Longrightarrow> deliverable overlay s ev \<Longrightarrow> game_inv (dispatch rnd ev s)"
    using nextLevel_inv [of s rnd] by (auto simp: dispatch_def)
qed

theorem reachable_game_inv: "reachable overlay rnd s \<Longrightarrow> game_inv s"
proof (induction rule: reachable.induct)
  case (load d)
  then show ?case using load_script_inv [of d rnd] by auto
next
  case (step s ev)
  show ?case by (rule dispatch_inv [OF step.IH step.hyps(2)])
qed

end
