(* ===== verification/Scenarios.thy ===== *)
theory Scenarios
  imports Game
begin

text \<open>
  Runs of whole phases of play, as lemmas over \<open>run\<close>: clicking every balloon of a
  level in order, and letting the countdown fire until it expires. They turn the
  scenarios of the spec (clear level 1, let level 3 time out) into short proofs, and give
  the concrete reachable pages the witnesses of the root theory use.
\<close>

text \<open>The page after every balloon of the area has been clicked, before the summary.\<close>

definition cleared :: "page \<Rightarrow> page" where
  "cleared s =
     (let sc = score s + 10 * int (length (area s))
      in s\<lparr>score := sc, area := [], score_text := ''POINTS: '' @ js_num sc,
           sound_plays := sound_plays s + length (area s), sound_time := 0\<rparr>)"

definition clicks :: "elem_id list \<Rightarrow> event list" where
  "clicks xs = map (\<lambda>e. Click (Elem e)) xs"

lemma clicks_simps [simp]:
  "clicks [] = []" "clicks (x # xs) = Click (Elem x) # clicks xs"
  "clicks (xs @ ys) = clicks xs @ clicks ys"
  by (simp_all add: clicks_def)

lemma run_pop_list:
  assumes "area s = xs" and "distinct xs" and "set xs \<subseteq> dom (elems s)"
    and "\<not> overlay \<or> modal_hidden s" and "xs \<noteq> []"
  shows "run overlay rnd s (clicks xs) = Some (endLevel False (cleared s))"
  using assms
proof (induction xs arbitrary: s)
  case Nil
  then show ?case by simp
next
  case (Cons x xs)
  have bal: "elems s x \<noteq> None" using Cons.prems(3) by auto
  have del: "deliverable overlay s (Click (Elem x))" using Cons.prems(1,4) by simp
  show ?case
  proof (cases "xs = []")
    case True
    have "popBalloon (Elem x) s = endLevel False (popped x s)"
      using bal Cons.prems(1) True by (simp add: popBalloon_balloon)
    moreover have "popped x s = cleared s"
      using Cons.prems(1) True
      by (simp add: popped_def cleared_def remove_elem_def updateScore_def playShootSound_def Let_def)
    ultimately show ?thesis using del True by (simp add: dispatch_def)
  next
    case False
    have ar: "area (popped x s) = xs" using Cons.prems(1,2) by (simp add: removeAll_id)
    have pb: "popBalloon (Elem x) s = popped x s"
      using bal ar False by (simp add: popBalloon_balloon)
    have "run overlay rnd (popped x s) (clicks xs) = Some (endLevel False (cleared (popped x s)))"
      using Cons.IH [OF ar] Cons.prems False by auto
    moreover have "cleared (popped x s) = cleared s"
      using Cons.prems(1) ar
      by (simp add: popped_def cleared_def remove_elem_def updateScore_def playShootSound_def
          Let_def algebra_simps)
    ultimately show ?thesis using del pb by (simp add: dispatch_def)
  qed
qed

text \<open>In a page of a level in progress, clicking every balloon ends the level.\<close>

lemma run_pop_all:
  assumes "game_inv s" and "modal_hidden s"
  shows "run overlay rnd s (clicks (area s)) = Some (endLevel False (cleared s))"
  using assms by (intro run_pop_list) (auto simp: game_inv_def dom_wf_def)

lemma run_pop_shown:
  assumes "game_inv s" and "area s \<noteq> []"
  shows "run False rnd s (clicks (area s)) = Some (endLevel False (cleared s))"
  using assms by (intro run_pop_list) (auto simp: game_inv_def dom_wf_def)

lemma cleared_simps [simp]:
  "score (cleared s) = score s + 10 * int (length (area s))" "area (cleared s) = []"
  "level (cleared s) = level s" "timer (cleared s) = timer s" "intervals (cleared s) = intervals s"
  "elems (cleared s) = elems s" "next_elem (cleared s) = next_elem s"
  "next_interval (cleared s) = next_interval s" "modal_hidden (cleared s) = modal_hidden s"
  "draws (cleared s) = draws s"
  by (simp_all add: cleared_def Let_def)

text \<open>
  Clearing a level below 3 and pressing the button: the next level starts with the score
  carried over, fresh balloons, and a countdown exactly when the next level is timed.
\<close>

lemma clear_and_continue:
  assumes inv: "game_inv s" and hid: "modal_hidden s" and lv: "level s < 3"
    and c: "currentLevelConfig (level s + 1) = Some c"
  shows "\<exists>s'. run overlay rnd s (clicks (area s) @ [Continue]) = Some s'
     \<and> level s' = level s + 1 \<and> score s' = score s + 10 * int (length (area s))
     \<and> area s' = [next_elem s ..< next_elem s + nat (numBalloons c)] \<and> modal_hidden s'
     \<and> next_elem s' = next_elem s + nat (numBalloons c)
     \<and> intervals s' = (if 0 < time c then [next_interval s \<mapsto> time c] else Map.empty)
     \<and> timer s' = (if 0 < time c then Some (next_interval s) else timer s)
     \<and> next_interval s' = (if 0 < time c then Suc (next_interval s) else next_interval s)"
proof -
  let ?e = "endLevel False (cleared s)"
  have idle: "intervals s = Map.empty"
    using inv lv by (auto simp: game_inv_def fun_eq_iff)
  have run1: "run overlay rnd s (clicks (area s)) = Some ?e"
    using run_pop_all [OF inv hid] .
  have e: "\<not> modal_hidden ?e" "modal_title ?e = title_great_job" "level ?e = level s"
    "intervals ?e = Map.empty"
    using lv idle by (simp_all add: modal_title_endLevel intervals_endLevel clearInterval_idle)
  have n: "level (next_level_of ?e) = level s + 1"
    using e lv by (simp add: next_level_of_level)
  have c': "currentLevelConfig (level (next_level_of ?e)) = Some c" using n c by simp
  have ne: "next_elem (next_level_of ?e) = next_elem s" "next_interval (next_level_of ?e) = next_interval s"
    "timer (next_level_of ?e) = timer s" "intervals (next_level_of ?e) = Map.empty"
    "score (next_level_of ?e) = score s + 10 * int (length (area s))"
    using e by (simp_all add: next_level_of_def)
  obtain s' where st: "startGame rnd (next_level_of ?e) = Inr s'"
    and g: "area s' = [next_elem (next_level_of ?e) ..< next_elem (next_level_of ?e) + nat (numBalloons c)]"
      "score s' = score (next_level_of ?e)" "level s' = level (next_level_of ?e)"
      "modal_hidden s' = modal_hidden (next_level_of ?e)"
      "intervals s' = (if 0 < time c
          then (intervals (clearInterval (timer (next_level_of ?e)) (next_level_of ?e)))(next_interval (next_level_of ?e) \<mapsto> time c)
          else intervals (clearInterval (timer (next_level_of ?e)) (next_level_of ?e)))"
      "timer s' = (if 0 < time c then Some (next_interval (next_level_of ?e)) else timer (next_level_of ?e))"
      "next_elem s' = next_elem (next_level_of ?e) + nat (numBalloons c)"
      "next_interval s' = (if 0 < time c then Suc (next_interval (next_level_of ?e)) else next_interval (next_level_of ?e))"
    by (rule startGame_Inr [OF c', of rnd]) blast+
  have ci: "intervals (clearInterval (timer (next_level_of ?e)) (next_level_of ?e)) = Map.empty"
    using ne(4) by (rule clearInterval_idle)
  have f: "level s' = level s + 1" "score s' = score s + 10 * int (length (area s))"
      "area s' = [next_elem s ..< next_elem s + nat (numBalloons c)]" "modal_hidden s'"
      "next_elem s' = next_elem s + nat (numBalloons c)"
      "intervals s' = (if 0 < time c then [next_interval s \<mapsto> time c] else Map.empty)"
      "timer s' = (if 0 < time c then Some (next_interval s) else timer s)"
      "next_interval s' = (if 0 < time c then Suc (next_interval s) else next_interval s)"
    using g ne n ci by simp_all
  have "run overlay rnd ?e [Continue] = Some s'"
    using e st by (simp add: dispatch_def nextLevel_eq)
  then have "run overlay rnd s (clicks (area s) @ [Continue]) = Some s'"
    using run1 by (simp add: run_append)
  then show ?thesis using f by blast
qed

text \<open>A scheduled countdown delivers its ticks one after the other.\<close>

lemma run_ticks:
  assumes "\<forall>k < n. intervals ((countdown_tick i ^^ k) s) i \<noteq> None"
  shows "run overlay rnd s (replicate n (Tick i)) = Some ((countdown_tick i ^^ n) s)"
  using assms
proof (induction n arbitrary: s)
  case 0
  then show ?case by simp
next
  case (Suc n)
  have "intervals s i \<noteq> None" using Suc.prems [rule_format, of 0] by simp
  moreover have "\<forall>k < n. intervals ((countdown_tick i ^^ k) (countdown_tick i s)) i \<noteq> None"
  proof (intro allI impI)
    fix k
    assume "k < n"
    then have "intervals ((countdown_tick i ^^ Suc k) s) i \<noteq> None"
      using Suc.prems [rule_format, of "Suc k"] by (simp del: funpow.simps)
    then show "intervals ((countdown_tick i ^^ k) (countdown_tick i s)) i \<noteq> None"
      by (simp add: funpow_Suc_right del: funpow.simps)
  qed
  ultimately show ?case
    using Suc.IH [of "countdown_tick i s"]
    by (simp add: dispatch_def funpow_Suc_right del: funpow.simps)
qed

lemma run_countdown:
  assumes "intervals s i = Some t" and "0 < t"
  shows "run overlay rnd s (replicate (nat t) (Tick i))
           = Some (endLevel True (clearInterval (timer s) (counting i 0 s)))"
proof -
  have "\<forall>k < nat t. intervals ((countdown_tick i ^^ k) s) i \<noteq> None"
  proof (intro allI impI)
    fix k
    assume "k < nat t"
    then show "intervals ((countdown_tick i ^^ k) s) i \<noteq> None"
      using assms countdown_ticks_running [OF assms(1), of "k - 1"]
      by (cases k) auto
  qed
  then show ?thesis
    using run_ticks countdown_ticks_expire [OF assms] by simp
qed

subsection \<open>A concrete document and random source for the witnesses\<close>

definition html_doc :: page where
  "html_doc =
     \<lparr>score = 0, level = 1, timer = None, intervals = Map.empty, next_interval = 1,
      elems = Map.empty, area = [], next_elem = 0, score_text = ''POINTS: 0'',
      timer_text = ''TIMER: --'', modal_hidden = True, modal_title = [], modal_instructor = [],
      modal_message = [], button_text = [], sound_time = 0, sound_plays = 0,
      sound_loaded = False, draws = 0\<rparr>"

definition rnd_half :: rng where
  "rnd_half n = 1 / 2"

lemma html_doc_ok: "html_ok html_doc"
  by (simp add: html_ok_def html_doc_def dom_wf_def)

lemma loaded_reachable:
  "reachable overlay rnd (js_state (load_script rnd html_doc))"
  using html_doc_ok by (rule reachable.load)


subsection \<open>One concrete game\<close>

text \<open>
  From the document \<open>html_doc\<close>, with every random draw \<open>1/2\<close>: clear level 1
  (balloons 0--14), continue, clear level 2 (balloons 15--29), continue; level 3 places
  balloons 30--49 and schedules interval 1, whose 15 ticks end the level.
\<close>

definition loaded_page :: page where
  "loaded_page = js_state (load_script rnd_half html_doc)"

definition to_level3 :: "event list" where
  "to_level3 = clicks [0..<15] @ [Continue] @ clicks [15..<30] @ [Continue]"

definition time_up_run :: "event list" where
  "time_up_run = to_level3 @ replicate 15 (Tick 1)"

lemma loaded_page_facts:
  "level loaded_page = 1" "score loaded_page = 0" "area loaded_page = [0..<15]"
  "modal_hidden loaded_page" "next_elem loaded_page = 15" "next_interval loaded_page = 1"
  "intervals loaded_page = Map.empty" "timer loaded_page = None"
proof -
  let ?d = "initAudio (html_doc\<lparr>score := 0, level := 1, timer := None\<rparr>)"
  have c: "currentLevelConfig (level ?d) = Some \<lparr>numBalloons = 15, time = 0, distance = ''near''\<rparr>"
    by (simp add: initAudio_def)
  obtain s' where "startGame rnd_half ?d = Inr s'" "area s' = [next_elem ?d ..< next_elem ?d + 15]"
      "score s' = score ?d" "level s' = level ?d" "modal_hidden s' = modal_hidden ?d"
      "intervals s' = intervals (clearInterval (timer ?d) ?d)" "timer s' = timer ?d"
      "next_elem s' = next_elem ?d + 15" "next_interval s' = next_interval ?d"
    using startGame_Inr [OF c, of rnd_half] by auto
  then show "level loaded_page = 1" "score loaded_page = 0" "area loaded_page = [0..<15]"
    "modal_hidden loaded_page" "next_elem loaded_page = 15" "next_interval loaded_page = 1"
    "intervals loaded_page = Map.empty" "timer loaded_page = None"
    by (simp_all add: loaded_page_def load_script_def initAudio_def html_doc_def clearInterval_def)
qed

lemma loaded_page_reachable: "reachable overlay rnd_half loaded_page"
  unfolding loaded_page_def by (rule loaded_reachable)

lemma time_up_run_result:
  "\<exists>P. run overlay rnd_half loaded_page time_up_run = Some P \<and> reachable overlay rnd_half P
     \<and> \<not> modal_hidden P \<and> modal_title P = title_time_up \<and> level P = 3 \<and> score P = 300
     \<and> area P = [30..<50] \<and> intervals P = Map.empty"
proof -
  have r0: "reachable overlay rnd_half loaded_page" by (rule loaded_page_reachable)
  have i0: "game_inv loaded_page" using reachable_game_inv [OF r0] .
  have c2: "currentLevelConfig (level loaded_page + 1) = Some \<lparr>numBalloons = 15, time = 0, distance = ''far''\<rparr>"
    using loaded_page_facts by simp
  from clear_and_continue [OF i0 loaded_page_facts(4) _ c2, of overlay rnd_half] loaded_page_facts(1)
  obtain s2 where r1': "run overlay rnd_half loaded_page (clicks (area loaded_page) @ [Continue]) = Some s2"
    and l2: "level s2 = level loaded_page + 1"
    and sc2: "score s2 = score loaded_page + 10 * int (length (area loaded_page))"
    and a2: "area s2 = [next_elem loaded_page ..< next_elem loaded_page + nat 15]"
    and h2: "modal_hidden s2" and e2: "next_elem s2 = next_elem loaded_page + nat 15"
    and n2: "next_interval s2 = (if 0 < (0::int) then Suc (next_interval loaded_page) else next_interval loaded_page)"
    by auto
  have r1: "run overlay rnd_half loaded_page (clicks [0..<15] @ [Continue]) = Some s2"
    using r1' unfolding loaded_page_facts(3) .
  have s2: "level s2 = 2" "score s2 = 300 - 150" "area s2 = [15..<30]" "next_elem s2 = 30"
    "next_interval s2 = 1"
    using l2 sc2 a2 e2 n2 loaded_page_facts by simp_all
  have i2: "game_inv s2" using reachable_game_inv [OF run_reachable [OF r0 r1]] .
  have c3: "currentLevelConfig (level s2 + 1) = Some \<lparr>numBalloons = 20, time = 15, distance = ''far''\<rparr>"
    using s2 by simp
  from clear_and_continue [OF i2 h2 _ c3, of overlay rnd_half] s2(1)
  obtain s4 where r2': "run overlay rnd_half s2 (clicks (area s2) @ [Continue]) = Some s4"
    and l4: "level s4 = level s2 + 1"
    and sc4: "score s4 = score s2 + 10 * int (length (area s2))"
    and a4: "area s4 = [next_elem s2 ..< next_elem s2 + nat 20]"
    and h4: "modal_hidden s4"
    and i4: "intervals s4 = (if 0 < (15::int) then [next_interval s2 \<mapsto> 15] else Map.empty)"
    and t4: "timer s4 = (if 0 < (15::int) then Some (next_interval s2) else timer s2)"
    by auto
  have r2: "run overlay rnd_half s2 (clicks [15..<30] @ [Continue]) = Some s4"
    using r2' unfolding s2(3) .
  have s4: "level s4 = 3" "score s4 = 300" "area s4 = [30..<50]"
    "intervals s4 = [1 \<mapsto> 15]" "timer s4 = Some 1"
    using l4 sc4 a4 i4 t4 s2 by simp_all
  let ?P = "endLevel True (clearInterval (timer s4) (counting 1 0 s4))"
  have r3: "run overlay rnd_half s4 (replicate 15 (Tick 1)) = Some ?P"
    using run_countdown [of s4 1 15] s4 by simp
  have eq: "time_up_run = (clicks [0..<15] @ [Continue]) @ (clicks [15..<30] @ [Continue]) @ replicate 15 (Tick 1)"
    by (simp only: time_up_run_def to_level3_def append_assoc)
  have "run overlay rnd_half loaded_page time_up_run
      = Option.bind (run overlay rnd_half loaded_page (clicks [0..<15] @ [Continue]))
          (\<lambda>t. run overlay rnd_half t ((clicks [15..<30] @ [Continue]) @ replicate 15 (Tick 1)))"
    unfolding eq by (rule run_append)
  also have "\<dots> = run overlay rnd_half s2 ((clicks [15..<30] @ [Continue]) @ replicate 15 (Tick 1))"
    by (simp only: r1 Option.bind_lunit)
  also have "\<dots> = Option.bind (run overlay rnd_half s2 (clicks [15..<30] @ [Continue]))
          (\<lambda>t. run overlay rnd_half t (replicate 15 (Tick 1)))"
    by (rule run_append)
  also have "\<dots> = Some ?P"
    by (simp only: r2 r3 Option.bind_lunit)
  finally have run: "run overlay rnd_half loaded_page time_up_run = Some ?P" .
  have "intervals ?P = Map.empty"
    using s4 by (simp add: intervals_endLevel clearInterval_def fun_eq_iff)
  moreover have "reachable overlay rnd_half ?P" using run_reachable [OF r0 run] .
  ultimately show ?thesis
    using run s4 h4 by (simp add: modal_title_endLevel)
qed

definition time_up_page :: page where
  "time_up_page = the (run True rnd_half loaded_page time_up_run)"

lemma time_up_page_facts:
  "reachable True rnd_half time_up_page" "\<not> modal_hidden time_up_page"
  "modal_title time_up_page = title_time_up" "level time_up_page = 3" "score time_up_page = 300"
  "area time_up_page = [30..<50]" "intervals time_up_page = Map.empty"
  using time_up_run_result [of True] by (auto simp: time_up_page_def)

end
