(* ===== verification/Refinement.thy ===== *)
theory Refinement
  imports Game
begin

text \<open>
  The level lifecycle as the spec states it (section 4): a session of score, level,
  remaining time, live targets and one of four phases, and the transitions
  \<open>handleTargetHit\<close>, the countdown tick and \<open>advance()\<close>. The abstraction
  \<open>abs_page\<close> reads a session off a page of the script: the phase from the modal and
  its title, the remaining time from the interval \<open>timer\<close> names, the targets from the
  target area. The lemmas show that, when the shown modal blocks clicks, each event the
  browser delivers is a step of the spec's machine or leaves the session unchanged.
\<close>

datatype phase = AwaitingInput | LevelClearedSummary | TimeUpSummary | GameOverSummary

record session =
  s_score :: int
  s_level :: int
  s_time :: "int option"
  s_targets :: nat
  s_phase :: phase

text \<open>\<open>startLevel\<close>: the targets and the countdown of the level's configuration.\<close>

definition start_level :: "int \<Rightarrow> int \<Rightarrow> session" where
  "start_level sc l =
     (let c = levels ! nat (l - 1)
      in \<lparr>s_score = sc, s_level = l, s_time = (if 0 < time c then Some (time c) else None),
          s_targets = nat (numBalloons c), s_phase = AwaitingInput\<rparr>)"

inductive spec_step :: "session \<Rightarrow> session \<Rightarrow> bool" where
  hit: "s_phase a = AwaitingInput \<Longrightarrow> 1 < s_targets a \<Longrightarrow>
          spec_step a (a\<lparr>s_score := s_score a + 10, s_targets := s_targets a - 1\<rparr>)"
| hit_last: "s_phase a = AwaitingInput \<Longrightarrow> s_targets a = 1 \<Longrightarrow>
          spec_step a (a\<lparr>s_score := s_score a + 10, s_targets := 0, s_time := None,
            s_phase := (if s_level a < 3 then LevelClearedSummary else GameOverSummary)\<rparr>)"
| tick: "s_phase a = AwaitingInput \<Longrightarrow> s_time a = Some t \<Longrightarrow> 1 < t \<Longrightarrow>
          spec_step a (a\<lparr>s_time := Some (t - 1)\<rparr>)"
| timeout: "s_phase a = AwaitingInput \<Longrightarrow> s_time a = Some 1 \<Longrightarrow>
          spec_step a (a\<lparr>s_time := None, s_phase := TimeUpSummary\<rparr>)"
| advance_next: "s_phase a = LevelClearedSummary \<Longrightarrow>
          spec_step a (start_level (s_score a) (min 3 (s_level a + 1)))"
| advance_retry: "s_phase a = TimeUpSummary \<Longrightarrow>
          spec_step a (start_level (s_score a) (s_level a))"
| advance_replay: "s_phase a = GameOverSummary \<Longrightarrow> spec_step a (start_level 0 1)"

inductive_cases spec_step_elim: "spec_step a b"

inductive spec_reach :: "session \<Rightarrow> bool" where
  init: "spec_reach (start_level 0 1)"
| step: "spec_reach a \<Longrightarrow> spec_step a b \<Longrightarrow> spec_reach b"

subsection \<open>Reading the session off a page\<close>

definition phase_of :: "page \<Rightarrow> phase" where
  "phase_of s =
     (if modal_hidden s then AwaitingInput
      else if modal_title s = title_time_up then TimeUpSummary
      else if modal_title s = title_great_job then LevelClearedSummary
      else GameOverSummary)"

definition abs_page :: "page \<Rightarrow> session" where
  "abs_page s =
     \<lparr>s_score = score s, s_level = level s,
      s_time = (case timer s of None \<Rightarrow> None | Some i \<Rightarrow> intervals s i),
      s_targets = length (area s), s_phase = phase_of s\<rparr>"

lemma levels_nth_config:
  "currentLevelConfig l = Some c \<Longrightarrow> levels ! nat (l - 1) = c"
  by (simp add: currentLevelConfig_def js_index_Some_iff)

text \<open>Starting a level from a page with no countdown is \<open>startLevel\<close>.\<close>

lemma abs_page_startGame:
  assumes c: "currentLevelConfig (level s) = Some c" and idle: "intervals s = Map.empty"
    and hid: "modal_hidden s"
  obtains s' where "startGame rnd s = Inr s'" "abs_page s' = start_level (score s) (level s)"
proof -
  obtain s' where st: "startGame rnd s = Inr s'"
    and fr: "area s' = [next_elem s ..< next_elem s + nat (numBalloons c)]"
      "score s' = score s" "level s' = level s" "modal_hidden s' = modal_hidden s"
    and iv: "intervals s' = (if 0 < time c then (intervals (clearInterval (timer s) s))(next_interval s \<mapsto> time c)
                     else intervals (clearInterval (timer s) s))"
    and tm: "timer s' = (if 0 < time c then Some (next_interval s) else timer s)"
    using startGame_Inr [OF c, of rnd] by blast
  have "(case timer s' of None \<Rightarrow> None | Some i \<Rightarrow> intervals s' i)
        = (if 0 < time c then Some (time c) else None)"
    using iv tm idle by (simp add: intervals_clearInterval split: option.split)
  then have "abs_page s' = start_level (score s) (level s)"
    using fr hid levels_nth_config [OF c] by (simp add: abs_page_def start_level_def phase_of_def)
  with st show ?thesis by (rule that)
qed

lemma abs_load_script:
  assumes "html_ok d"
  shows "abs_page (js_state (load_script rnd d)) = start_level 0 1"
proof -
  let ?d = "initAudio (d\<lparr>score := 0, level := 1, timer := None\<rparr>)"
  have c: "currentLevelConfig (level ?d) = Some \<lparr>numBalloons = 15, time = 0, distance = ''near''\<rparr>"
    by (simp add: initAudio_def)
  have "intervals ?d = Map.empty" "modal_hidden ?d"
    using assms by (simp_all add: html_ok_def initAudio_def)
  then obtain s' where "startGame rnd ?d = Inr s'" "abs_page s' = start_level (score ?d) (level ?d)"
    using abs_page_startGame [OF c] by blast
  then show ?thesis by (simp add: load_script_def initAudio_def)
qed

lemma start_level_phase [simp]: "s_phase (start_level sc l) = AwaitingInput"
  by (simp add: start_level_def Let_def)

text \<open>From a time-out summary the spec's machine can only go back to a level in progress.\<close>

lemma spec_step_from_time_up:
  "spec_step a b \<Longrightarrow> s_phase a = TimeUpSummary \<Longrightarrow> s_phase b = AwaitingInput"
  by (erule spec_step_elim) simp_all

subsection \<open>Each handler is a step of the spec's machine\<close>

lemma popBalloon_simulates:
  assumes inv: "game_inv s" and hid: "modal_hidden s" and e: "e \<in> set (area s)"
  shows "spec_step (abs_page s) (abs_page (popBalloon (Elem e) s))"
proof -
  have d: "distinct (area s)" and bal: "elems s e \<noteq> None"
    and single: "dom (intervals s) \<subseteq> set_option (timer s)"
    using inv e by (auto simp: game_inv_def dom_wf_def)
  have len: "Suc (length (removeAll e (area s))) = length (area s)"
    using length_removeAll_distinct [OF d e] .
  have ph: "s_phase (abs_page s) = AwaitingInput" using hid by (simp add: abs_page_def phase_of_def)
  show ?thesis
  proof (cases "area (popped e s) = []")
    case True
    have one: "s_targets (abs_page s) = 1" using True len by (simp add: abs_page_def)
    have "intervals (endLevel False (popped e s)) = Map.empty"
      using single by (intro endLevel_cancels) simp
    then have "abs_page (endLevel False (popped e s)) = (abs_page s)\<lparr>s_score := s_score (abs_page s) + 10,
        s_targets := 0, s_time := None,
        s_phase := (if s_level (abs_page s) < 3 then LevelClearedSummary else GameOverSummary)\<rparr>"
      using True by (simp add: abs_page_def phase_of_def modal_title_endLevel split: option.split)
    then show ?thesis
      using spec_step.hit_last [OF ph one] True bal by (simp add: popBalloon_balloon)
  next
    case False
    have "removeAll e (area s) \<noteq> []" using False by simp
    then have more: "1 < s_targets (abs_page s)" using len by (cases "removeAll e (area s)") (auto simp: abs_page_def)
    have "abs_page (popped e s) = (abs_page s)\<lparr>s_score := s_score (abs_page s) + 10,
        s_targets := s_targets (abs_page s) - 1\<rparr>"
      using len by (simp add: abs_page_def phase_of_def split: option.split) linarith
    then show ?thesis
      using spec_step.hit [OF ph more] False bal by (simp add: popBalloon_balloon)
  qed
qed

lemma countdown_tick_simulates:
  assumes inv: "game_inv s" and act: "intervals s i = Some t"
  shows "spec_step (abs_page s) (abs_page (countdown_tick i s))"
proof -
  have tm: "timer s = Some i" using game_inv_timer [OF inv act] .
  have t: "0 < t" "modal_hidden s" using inv act by (auto simp: game_inv_def)
  have ph: "s_phase (abs_page s) = AwaitingInput" using t by (simp add: abs_page_def phase_of_def)
  have at: "s_time (abs_page s) = Some t" using tm act by (simp add: abs_page_def)
  show ?thesis
  proof (cases "1 < t")
    case True
    have "abs_page (countdown_tick i s) = (abs_page s)\<lparr>s_time := Some (t - 1)\<rparr>"
      using act True tm by (simp add: countdown_tick_continue abs_page_def phase_of_def)
    then show ?thesis using spec_step.tick [OF ph at True] by simp
  next
    case False
    then have one: "t = 1" using t by simp
    have "abs_page (countdown_tick i s) = (abs_page s)\<lparr>s_time := None, s_phase := TimeUpSummary\<rparr>"
      using act one tm
      by (simp add: countdown_tick_expire abs_page_def phase_of_def modal_title_endLevel
          intervals_endLevel intervals_clearInterval)
    then show ?thesis using spec_step.timeout [OF ph] at one by simp
  qed
qed

lemma nextLevel_simulates:
  assumes inv: "game_inv s" and shown: "\<not> modal_hidden s"
  shows "spec_step (abs_page s) (abs_page (js_state (nextLevel rnd s)))"
proof -
  let ?n = "next_level_of s"
  have idle: "intervals ?n = Map.empty" using game_inv_shown_idle [OF inv shown] by simp
  have "1 \<le> level ?n \<and> level ?n \<le> 3"
    using inv by (auto simp: game_inv_def next_level_of_level)
  then obtain c where c: "currentLevelConfig (level ?n) = Some c"
    using currentLevelConfig_Some_iff by blast
  obtain s' where st: "startGame rnd ?n = Inr s'" and ab: "abs_page s' = start_level (score ?n) (level ?n)"
    using abs_page_startGame [OF c idle] by auto
  have res: "abs_page (js_state (nextLevel rnd s)) = start_level (score ?n) (level ?n)"
    using st ab by (simp add: nextLevel_eq)
  have "summary_ok s" using inv shown by (simp add: game_inv_def)
  then consider (up) "modal_title s = title_time_up" "level s = 3"
    | (job) "modal_title s = title_great_job" "level s < 3"
    | (over) "modal_title s = title_game_over" "level s = 3"
    unfolding summary_ok_def by blast
  then show ?thesis
  proof cases
    case up
    have ph: "s_phase (abs_page s) = TimeUpSummary" using up shown by (simp add: abs_page_def phase_of_def)
    have eq: "score ?n = s_score (abs_page s)" "level ?n = s_level (abs_page s)"
      using up by (simp_all add: next_level_of_def abs_page_def)
    show ?thesis unfolding res eq by (rule spec_step.advance_retry [OF ph])
  next
    case job
    have ph: "s_phase (abs_page s) = LevelClearedSummary"
      using job shown by (simp add: abs_page_def phase_of_def)
    have eq: "score ?n = s_score (abs_page s)" "level ?n = min 3 (s_level (abs_page s) + 1)"
      using job by (simp_all add: next_level_of_def abs_page_def)
    show ?thesis unfolding res eq by (rule spec_step.advance_next [OF ph])
  next
    case over
    have ph: "s_phase (abs_page s) = GameOverSummary"
      using over shown by (simp add: abs_page_def phase_of_def)
    have eq: "score ?n = 0" "level ?n = 1"
      using over by (simp_all add: next_level_of_def)
    show ?thesis unfolding res eq by (rule spec_step.advance_replay [OF ph])
  qed
qed

text \<open>
  With a modal that blocks clicks, every event the browser delivers is a step of the
  spec's machine, except a click on the bare target area, which changes nothing.
\<close>

lemma dispatch_simulates:
  assumes inv: "game_inv s" and del: "deliverable True s ev"
  shows "spec_step (abs_page s) (abs_page (dispatch rnd ev s)) \<or> abs_page (dispatch rnd ev s) = abs_page s"
proof (cases ev)
  case (Click t)
  then show ?thesis
  proof (cases t)
    case (Elem e)
    then show ?thesis using Click del popBalloon_simulates [OF inv] by (simp add: dispatch_def)
  qed (simp add: dispatch_def)
next
  case (Tick i)
  then show ?thesis using del countdown_tick_simulates [OF inv] by (auto simp: dispatch_def)
next
  case Continue
  then show ?thesis using del nextLevel_simulates [OF inv] by (simp add: dispatch_def)
qed

end
