(* ===== verification/Spec2Isabelle.thy ===== *)
theory Spec2Isabelle
  imports Scenarios Refinement
begin

text \<open>
  \<^bold>\<open>A verification development of the balloon-blast browser game.\<close>

  \<^bold>\<open>The program.\<close> The repository is one script, \<^verbatim>\<open>src/script.js\<close>, driving a
  page of three levels: a level puts balloons at random places in \<open>#target-area\<close>,
  each click on a balloon removes it and scores 10 points, the last balloon ends the
  level; level 3 also runs a 15-second countdown whose expiry ends the level with
  "TIME'S UP". A modal then summarises the level; its button advances to the next
  level, retries level 3 after a time-out, or restarts at level 1 with score 0 after
  the game is over. The script keeps three globals (\<open>score\<close>, \<open>level\<close>,
  \<open>timer\<close>) and otherwise works on the DOM, the browser's timers and an audio element.

  \<^bold>\<open>The theories.\<close>
  \<^item> \<open>Prelude\<close>: the JavaScript built-ins the script relies on: array reads that
    yield \<open>undefined\<close> (\<open>js_index\<close>), numbers in template literals (\<open>js_num\<close>,
    with its inverse \<open>read_digits\<close>), \<open>String.prototype.includes\<close>
    (\<open>js_includes\<close>), the UTF-8 bytes of the bear emoji; the result type of a handler
    that may throw (\<open>js_result\<close>: the error with the state at the throw, or the new
    state); the random source \<open>rng\<close>, the \<open>n\<close>-th value \<open>Math.random()\<close> returns.
  \<^item> \<open>Page\<close>: the record \<open>page\<close> of the whole state (the three globals, the
    scheduled intervals with the \<open>timeLeft\<close> each closure holds, the balloons and the
    target area, the displays, the modal, the audio element, the number of random
    draws) and the browser primitives \<open>setInterval\<close>, \<open>clearInterval\<close>,
    \<open>math_random\<close>, \<open>clear_area\<close>, \<open>append_balloon\<close>, \<open>remove_elem\<close>.
  \<^item> \<open>Config\<close>: the table \<open>levels\<close> (lines 16--23) and the lookup
    \<open>currentLevelConfig l = levels[l - 1]\<close>.
  \<^item> \<open>Summary\<close>: \<open>endLevel\<close> (lines 90--120) and its prize tiers \<open>prize\<close>.
  \<^item> \<open>Countdown\<close>: \<open>startTimer\<close> (lines 49--66) and the interval callback
    \<open>countdown_tick\<close> (lines 55--62).
  \<^item> \<open>Balloons\<close>: \<open>generateBalloons\<close> (lines 68--88), its \<open>for\<close> loop
    \<open>balloon_loop\<close> as a \<^theory_text>\<open>function\<close> with a termination measure, and the
    closed form \<open>loop_result\<close> of the loop.
  \<^item> \<open>Controller\<close>: \<open>updateScore\<close>, \<open>playShootSound\<close>, the click handler
    \<open>popBalloon\<close>, \<open>startGame\<close>, the button handler \<open>nextLevel\<close>,
    \<open>initAudio\<close> and the script's top level \<open>load_script\<close>.
  \<^item> \<open>Game\<close>: the page as an event system: the events (\<open>Click\<close>, \<open>Tick\<close>,
    \<open>Continue\<close>), which of them the browser can deliver in a page
    (\<open>deliverable\<close>), the handler each runs (\<open>dispatch\<close>), the pages reachable from
    a well-formed document (\<open>reachable\<close>, an inductive predicate), an executable run
    of an event list (\<open>run\<close>), and the invariant \<open>game_inv\<close> with one preservation
    lemma per handler.
  \<^item> \<open>Scenarios\<close>: runs of whole phases of play over \<open>run\<close> (clicking every
    balloon of a level, letting a countdown expire, clearing a level and continuing), a
    concrete document \<open>html_doc\<close> and random source \<open>rnd_half\<close>, and one concrete game
    from the page load to a time-out in level 3 (\<open>time_up_page\<close>).
  \<^item> \<open>Refinement\<close>: the spec's level lifecycle (section 4) as an abstract machine
    \<open>spec_step\<close> over sessions (score, level, remaining time, live targets, one of four
    phases), the abstraction \<open>abs_page\<close> from pages, and one simulation lemma per
    handler.
  \<^item> This theory: the properties that span the components, stated over reachable pages
    or over the handlers, each with a witness at a concrete page.

  \<^bold>\<open>Modelling choices.\<close> JavaScript numbers are \<open>int\<close>: the scores and counters the
  script computes are small integers, far inside the exactly representable range, so no
  rounding or overflow occurs. Balloon positions are \<open>real\<close>. Randomness is a parameter
  \<open>rnd\<close> (the \<open>n\<close>-th call of \<open>Math.random()\<close> returns \<open>rnd n\<close>), so every
  theorem holds for every sequence of random values, and the bounds on positions for
  every valid one (values in \<open>[0, 1)\<close>). Time is not modelled as a clock: each
  firing of a scheduled interval is an event, interleaved in any order with the clicks,
  which is all the single-threaded event loop guarantees. The style sheet and
  \<^verbatim>\<open>index.html\<close> are not in the repository: the document is a parameter
  constrained by \<open>html_ok\<close> (empty target area, no timer, modal hidden), and whether
  the shown modal blocks clicks on the balloons is the parameter \<open>overlay\<close> of
  \<open>deliverable\<close>. Rendering, CSS animation and the audio decoder are not modelled;
  the audio element is reduced to its rewind position, a play counter and its loaded
  flag.

  \<^bold>\<open>What is proved.\<close>
  \<^item> The countdown (C1, C8--C10, C13): every reachable page has at most one interval
    scheduled, the one \<open>timer\<close> names; a time-out happens only in level 3; a countdown
    of \<open>t\<close> seconds shows \<open>t - k\<close> after \<open>k\<close> ticks and ends the level at the
    \<open>t\<close>-th; the last hit cancels it in the same handler; levels 1 and 2 never tick.
  \<^item> The handlers (C2--C7, C11, C12, C15, C20): starting a level places exactly the
    configured number of balloons inside \<open>[10, 90)\<close> with the configured scale, and
    the loop terminates; no reachable page makes the script throw; the three summaries
    with their prize tiers; replay after GAME OVER, retry after TIME'S UP; a delivered
    click scores once; the score display parses back to the score.
  \<^item> Invariants and runs (C14, C16--C18): the title test of \<open>nextLevel\<close> recognises
    exactly the game-over summary; a level in progress has live, distinct targets; the
    score is a non-negative multiple of 10; clicking every balloon completes the level.
  \<^item> Refinement (C21, C23): with a modal that blocks clicks, every reachable page
    abstracts to a session reachable in the spec's state machine, and a shown summary
    accepts nothing but its button.
  \<^item> Where code and spec part (C7, C12, C19, C22): \<open>nextLevel\<close> would advance after a
    time-out below level 3; a removed balloon still scores when the handler is invoked on
    it; without the blocking modal a timed-out level 3 can be finished into GAME OVER,
    and this breaks the refinement.

  \<^bold>\<open>Bounds and fuel.\<close> No fuel is used: the balloon loop is a terminating
  \<^theory_text>\<open>function\<close> (measure \<open>numBalloons - i\<close>), every handler is a non-recursive
  definition, and the unbounded behaviour of the page (the event loop) is the inductive
  \<open>reachable\<close> and the executable \<open>run\<close> over a finite event list.

  \<^bold>\<open>Not modelled.\<close> \<open>getElementById\<close> (the elements are taken as present, and
  the \<open>.balloon\<close> elements of the document are taken to be those in the target area, so
  the count \<open>querySelectorAll('.balloon').length\<close> of \<open>popBalloon\<close> is the area's length),
  rendering, the style sheet and CSS animation (only their effect on clicks, the
  parameter \<open>overlay\<close>), the audio decoder and the console logging.
\<close>

subsection \<open>The countdown\<close>

text \<open>
  C1. In every page the script can reach, at most one interval is scheduled, and if one
  is, it is the one the global \<open>timer\<close> names: starting a level or ending one always
  cancels the previous countdown first, so no stale countdown can fire against a new
  level.
\<close>

theorem single_countdown:
  assumes "reachable overlay rnd s"
  shows "card (dom (intervals s)) \<le> 1 \<and> (\<forall>i \<in> dom (intervals s). timer s = Some i)"
proof -
  have sub: "dom (intervals s) \<subseteq> set_option (timer s)"
    using reachable_game_inv [OF assms] by (simp add: game_inv_def)
  then have "card (dom (intervals s)) \<le> 1" by (rule dom_subset_option_card)
  with sub show ?thesis by auto
qed

theorem single_countdown_witness:
  "reachable True rnd_half (js_state (load_script rnd_half html_doc))
   \<and> card (dom (intervals (js_state (load_script rnd_half html_doc)))) \<le> 1"
  using single_countdown [OF loaded_reachable [of True rnd_half]] loaded_reachable by simp

subsection \<open>Starting a level\<close>

text \<open>
  C2. Starting level \<open>l\<close> (1 to 3) succeeds and fills the target area with exactly
  \<open>levels[l - 1].numBalloons\<close> balloons, each at coordinates in \<open>[10, 90)\<close> percent
  and scaled to 0.6 exactly when the level is \<open>far\<close>.
\<close>

theorem startGame_spawns:
  assumes "1 \<le> level s" and "level s \<le> 3" and "valid_rng rnd"
  shows "\<exists>s'. startGame rnd s = Inr s'
     \<and> length (area s') = nat (numBalloons (levels ! nat (level s - 1)))
     \<and> (\<forall>e \<in> set (area s'). \<exists>b. elems s' e = Some b
          \<and> 10 \<le> style_left b \<and> style_left b < 90 \<and> 10 \<le> style_top b \<and> style_top b < 90
          \<and> style_transform b =
              (if distance (levels ! nat (level s - 1)) = ''far'' then ''scale(0.6)'' else []))"
proof -
  obtain c where c: "currentLevelConfig (level s) = Some c"
    using assms currentLevelConfig_Some_iff [of "level s"] by auto
  have cl: "c = levels ! nat (level s - 1)"
    using c by (simp add: currentLevelConfig_def js_index_Some_iff)
  obtain s' where st: "startGame rnd s = Inr s'"
    and ar: "area s' = [next_elem s ..< next_elem s + nat (numBalloons c)]"
    and el: "elems s' = elems (loop_result rnd c (nat (numBalloons c)) (s\<lparr>area := []\<rparr>))"
    using startGame_Inr [OF c] by blast
  have "\<forall>e \<in> set (area s'). \<exists>b. elems s' e = Some b
          \<and> 10 \<le> style_left b \<and> style_left b < 90 \<and> 10 \<le> style_top b \<and> style_top b < 90
          \<and> style_transform b = (if distance c = ''far'' then ''scale(0.6)'' else [])"
  proof
    fix e
    assume "e \<in> set (area s')"
    then have "next_elem s \<le> e" "e < next_elem s + nat (numBalloons c)" using ar by auto
    then have "elems s' e = Some (drawn_balloon rnd c (draws s + 2 * (e - next_elem s)))"
      using el loop_result_elems_new [of "s\<lparr>area := []\<rparr>" e] by simp
    then show "\<exists>b. elems s' e = Some b
          \<and> 10 \<le> style_left b \<and> style_left b < 90 \<and> 10 \<le> style_top b \<and> style_top b < 90
          \<and> style_transform b = (if distance c = ''far'' then ''scale(0.6)'' else [])"
      using drawn_balloon_bounds [OF assms(3)] drawn_balloon_transform by simp
  qed
  then show ?thesis using st ar cl by auto
qed

theorem startGame_spawns_witness:
  "\<exists>s'. startGame rnd_half (html_doc\<lparr>level := 3\<rparr>) = Inr s' \<and> length (area s') = 20"
proof -
  have "valid_rng rnd_half" by (simp add: valid_rng_def rnd_half_def)
  then show ?thesis
    using startGame_spawns [of "html_doc\<lparr>level := 3\<rparr>" rnd_half] by (auto simp: levels_def)
qed

subsection \<open>Errors\<close>

text \<open>
  C3. The only way the script can throw is reading \<open>levels[level - 1]\<close> outside the
  table. In every reachable page the level is 1, 2 or 3, and the button handler
  \<open>nextLevel\<close> returns normally.
\<close>

theorem nextLevel_never_throws:
  assumes "reachable overlay rnd s"
  shows "1 \<le> level s \<and> level s \<le> 3 \<and> (\<exists>s'. nextLevel rnd s = Inr s')"
proof -
  have lv: "1 \<le> level s \<and> level s \<le> 3"
    using reachable_game_inv [OF assms] by (simp add: game_inv_def)
  then have "1 \<le> level (next_level_of s) \<and> level (next_level_of s) \<le> 3"
    by (auto simp: next_level_of_level)
  then have "\<exists>s'. startGame rnd (next_level_of s) = Inr s'"
    using startGame_total by blast
  with lv show ?thesis by (simp add: nextLevel_eq)
qed

theorem nextLevel_never_throws_witness:
  "\<exists>s'. nextLevel rnd_half (js_state (load_script rnd_half html_doc)) = Inr s'"
  using nextLevel_never_throws [OF loaded_reachable [of True rnd_half]] by simp

subsection \<open>The end-of-level summary\<close>

text \<open>
  C4. \<open>endLevel\<close> shows the modal and keeps score, level and balloons; a time-out
  offers "Try Again?", a cleared level below 3 offers the next level, and the end of
  level 3 shows "GAME OVER" with the final score and the prize tier: BIG from 100 points,
  MEDIUM from 50, SMALL below.
\<close>

theorem endLevel_summary:
  "\<not> modal_hidden (endLevel b s) \<and> score (endLevel b s) = score s
   \<and> level (endLevel b s) = level s \<and> area (endLevel b s) = area s
   \<and> (b \<longrightarrow> modal_title (endLevel b s) = bear @ '' TIME'S UP!''
         \<and> button_text (endLevel b s) = ''Try Again?'')
   \<and> (\<not> b \<and> level s < 3 \<longrightarrow> modal_title (endLevel b s) = bear @ '' GREAT JOB!''
         \<and> button_text (endLevel b s) = ''Start Level '' @ js_num (level s + 1))
   \<and> (\<not> b \<and> 3 \<le> level s \<longrightarrow> modal_title (endLevel b s) = bear @ '' GAME OVER!''
         \<and> modal_message (endLevel b s) = ''Final Score: '' @ js_num (score s) @ ''! You win the ''
              @ (if 100 \<le> score s then ''BIG PRIZE'' else if 50 \<le> score s then ''MEDIUM PRIZE''
                 else ''SMALL PRIZE'') @ ''!''
         \<and> button_text (endLevel b s) = ''Play Again?'')"
  by (simp add: endLevel_def Let_def title_time_up_def title_great_job_def title_game_over_def
      prize_def)

theorem endLevel_summary_witness:
  "modal_message (endLevel False (html_doc\<lparr>level := 3, score := 120\<rparr>))
     = ''Final Score: 120! You win the BIG PRIZE!''
   \<and> modal_message (endLevel False (html_doc\<lparr>level := 3, score := 60\<rparr>))
     = ''Final Score: 60! You win the MEDIUM PRIZE!''"
  using endLevel_summary [of False "html_doc\<lparr>level := 3, score := 120\<rparr>"]
    endLevel_summary [of False "html_doc\<lparr>level := 3, score := 60\<rparr>"]
  by (simp add: js_eval)

subsection \<open>Leaving the summary\<close>

text \<open>
  C5. Dismissing the "GAME OVER" summary restarts the game: score 0 (shown as
  \<open>POINTS: 0\<close>), level 1 with its 15 balloons, the modal hidden and no countdown.
\<close>

theorem game_over_replay:
  assumes "game_inv s" and "\<not> modal_hidden s" and "modal_title s = bear @ '' GAME OVER!''"
  shows "\<exists>s'. nextLevel rnd s = Inr s' \<and> score s' = 0 \<and> score_text s' = ''POINTS: 0''
     \<and> level s' = 1 \<and> length (area s') = 15 \<and> modal_hidden s' \<and> intervals s' = Map.empty"
proof -
  have lv: "level s = 3"
    using assms by (auto simp: game_inv_def summary_ok_def titles_defs)
  have idle: "intervals s = Map.empty" using game_inv_shown_idle [OF assms(1,2)] .
  let ?n = "next_level_of s"
  have n: "level ?n = 1" "score ?n = 0" "score_text ?n = ''POINTS: 0''"
    using lv assms(3) titles_includes_game_over(1)
    by (simp_all add: next_level_of_def title_game_over_def)
  have c: "currentLevelConfig (level ?n) = Some \<lparr>numBalloons = 15, time = 0, distance = ''near''\<rparr>"
    using n by simp
  obtain s' where "startGame rnd ?n = Inr s'" "area s' = [next_elem ?n ..< next_elem ?n + 15]"
      "score s' = score ?n" "level s' = level ?n" "modal_hidden s' = modal_hidden ?n"
      "score_text s' = score_text ?n" "intervals s' = intervals (clearInterval (timer ?n) ?n)"
    using startGame_Inr [OF c, of rnd] by auto
  then show ?thesis
    using n idle by (simp add: nextLevel_eq clearInterval_idle)
qed

theorem game_over_replay_witness:
  "\<exists>s'. nextLevel rnd_half
          (html_doc\<lparr>level := 3, score := 120, modal_hidden := False,
                     modal_title := bear @ '' GAME OVER!''\<rparr>) = Inr s'
     \<and> score s' = 0 \<and> level s' = 1"
proof -
  have "game_inv (html_doc\<lparr>level := 3, score := 120, modal_hidden := False,
                     modal_title := bear @ '' GAME OVER!''\<rparr>)"
    by (simp add: game_inv_def html_doc_def dom_wf_def summary_ok_def titles_defs)
  then show ?thesis
    using game_over_replay [of _ rnd_half] by fastforce
qed

text \<open>
  C6. Dismissing the "TIME'S UP" summary retries level 3: the score is kept, 20 new
  balloons are placed and a fresh 15-second countdown is the only one scheduled.
\<close>

theorem time_up_retry:
  assumes "game_inv s" and "\<not> modal_hidden s" and "modal_title s = bear @ '' TIME'S UP!''"
  shows "\<exists>s'. nextLevel rnd s = Inr s' \<and> score s' = score s \<and> level s' = 3
     \<and> length (area s') = 20 \<and> modal_hidden s'
     \<and> intervals s' = [next_interval s \<mapsto> 15] \<and> timer s' = Some (next_interval s)"
proof -
  have lv: "level s = 3"
    using assms by (auto simp: game_inv_def summary_ok_def titles_defs)
  have idle: "intervals s = Map.empty" using game_inv_shown_idle [OF assms(1,2)] .
  let ?n = "next_level_of s"
  have ng: "\<not> js_includes (modal_title s) ''GAME OVER''"
    using assms(3) titles_includes_game_over(3) by (simp add: title_time_up_def)
  have n: "level ?n = 3" "score ?n = score s"
    using lv ng by (simp_all add: next_level_of_def)
  have c: "currentLevelConfig (level ?n) = Some \<lparr>numBalloons = 20, time = 15, distance = ''far''\<rparr>"
    using n by simp
  obtain s' where "startGame rnd ?n = Inr s'" "area s' = [next_elem ?n ..< next_elem ?n + 20]"
      "score s' = score ?n" "level s' = level ?n" "modal_hidden s' = modal_hidden ?n"
      "intervals s' = (intervals (clearInterval (timer ?n) ?n))(next_interval ?n \<mapsto> 15)"
      "timer s' = Some (next_interval ?n)"
    using startGame_Inr [OF c, of rnd] by auto
  then show ?thesis
    using n idle by (simp add: nextLevel_eq clearInterval_idle)
qed

theorem time_up_retry_witness:
  "\<exists>s'. nextLevel rnd_half
          (html_doc\<lparr>level := 3, score := 70, modal_hidden := False,
                     modal_title := bear @ '' TIME'S UP!'', area := [0], elems := [0 \<mapsto> drawn_balloon rnd_half (levels ! 2) 0],
                     next_elem := 1\<rparr>) = Inr s'
     \<and> score s' = 70 \<and> level s' = 3"
proof -
  have "game_inv (html_doc\<lparr>level := 3, score := 70, modal_hidden := False,
                     modal_title := bear @ '' TIME'S UP!'', area := [0], elems := [0 \<mapsto> drawn_balloon rnd_half (levels ! 2) 0],
                     next_elem := 1\<rparr>)"
    by (simp add: game_inv_def html_doc_def dom_wf_def summary_ok_def titles_defs)
  then show ?thesis
    using time_up_retry [of _ rnd_half] by fastforce
qed

text \<open>
  C7. \<open>nextLevel\<close> recognises a time-out only through \<open>level < 3\<close> failing: below
  level 3 a "TIME'S UP" summary would advance to the next level instead of retrying.
  The spec's \<open>advance()\<close> retries the same level; the two agree only because no level
  below 3 is timed (C8).
\<close>

theorem time_up_advances_below_level3:
  assumes "1 \<le> level s" and "level s < 3" and "modal_title s = bear @ '' TIME'S UP!''"
  shows "level (js_state (nextLevel rnd s)) = level s + 1"
proof -
  have n: "level (next_level_of s) = level s + 1"
    using assms(2) by (simp add: next_level_of_level)
  then have "1 \<le> level (next_level_of s) \<and> level (next_level_of s) \<le> 3" using assms(1,2) by simp
  then obtain c where c: "currentLevelConfig (level (next_level_of s)) = Some c"
    using currentLevelConfig_Some_iff by blast
  obtain s' where "startGame rnd (next_level_of s) = Inr s'" "level s' = level (next_level_of s)"
    using startGame_Inr [OF c, of rnd] by auto
  then show ?thesis using n by (simp add: nextLevel_eq)
qed

theorem time_up_advances_below_level3_witness:
  "level (js_state (nextLevel rnd_half
      (html_doc\<lparr>modal_hidden := False, modal_title := bear @ '' TIME'S UP!''\<rparr>))) = 2"
  using time_up_advances_below_level3 [of "html_doc\<lparr>modal_hidden := False, modal_title := bear @ '' TIME'S UP!''\<rparr>" rnd_half]
  by (simp add: html_doc_def)

subsection \<open>The countdown and its race with the clicks\<close>

text \<open>
  C8. A "TIME'S UP" summary is only ever shown in level 3, the one timed level, and
  while it is shown no countdown is scheduled.
\<close>

theorem time_up_only_level3:
  assumes "reachable overlay rnd s" and "\<not> modal_hidden s" and "modal_title s = bear @ '' TIME'S UP!''"
  shows "level s = 3 \<and> intervals s = Map.empty"
proof -
  have inv: "game_inv s" using reachable_game_inv [OF assms(1)] .
  then have "summary_ok s" using assms(2) by (simp add: game_inv_def)
  then have "level s = 3" using assms(3) by (auto simp: summary_ok_def titles_defs)
  with game_inv_shown_idle [OF inv assms(2)] show ?thesis by simp
qed

theorem time_up_only_level3_witness:
  "level time_up_page = 3 \<and> intervals time_up_page = Map.empty"
  using time_up_only_level3 [OF time_up_page_facts(1,2)] time_up_page_facts(3)
  by (simp add: title_time_up_def)

text \<open>
  C9. A countdown scheduled with \<open>t > 0\<close> seconds left counts down: after
  \<open>k\<close> firings (\<open>0 < k < t\<close>) it holds and shows \<open>t - k\<close>, and the \<open>t\<close>-th
  firing shows 0, cancels the interval and ends the level as timed out, with the score
  and the remaining balloons unchanged.
\<close>

theorem countdown_expires:
  assumes "intervals s i = Some t" and "0 < t" and "timer s = Some i"
  shows "(\<forall>k. 0 < k \<and> int k < t \<longrightarrow> (countdown_tick i ^^ k) s =
            s\<lparr>intervals := (intervals s)(i \<mapsto> t - int k), timer_text := ''TIMER: '' @ js_num (t - int k)\<rparr>)
    \<and> \<not> modal_hidden ((countdown_tick i ^^ nat t) s)
    \<and> modal_title ((countdown_tick i ^^ nat t) s) = bear @ '' TIME'S UP!''
    \<and> intervals ((countdown_tick i ^^ nat t) s) i = None
    \<and> timer_text ((countdown_tick i ^^ nat t) s) = ''TIMER: 0''
    \<and> score ((countdown_tick i ^^ nat t) s) = score s \<and> area ((countdown_tick i ^^ nat t) s) = area s"
proof -
  have run: "\<forall>k. 0 < k \<and> int k < t \<longrightarrow> (countdown_tick i ^^ k) s =
            s\<lparr>intervals := (intervals s)(i \<mapsto> t - int k), timer_text := ''TIMER: '' @ js_num (t - int k)\<rparr>"
  proof (intro allI impI)
    fix k
    assume k: "0 < k \<and> int k < t"
    then obtain j where j: "k = Suc j" by (cases k) auto
    show "(countdown_tick i ^^ k) s =
            s\<lparr>intervals := (intervals s)(i \<mapsto> t - int k), timer_text := ''TIMER: '' @ js_num (t - int k)\<rparr>"
      using countdown_ticks_running [OF assms(1), of j] k j by (simp add: counting_def)
  qed
  have e: "(countdown_tick i ^^ nat t) s = endLevel True (clearInterval (timer s) (counting i 0 s))"
    by (rule countdown_ticks_expire [OF assms(1,2)])
  have z: "js_num 0 = ''0''" by (simp add: js_eval)
  show ?thesis
    using run e assms(3)
    by (simp add: modal_title_endLevel intervals_endLevel intervals_clearInterval title_time_up_def
        counting_def z)
qed

theorem countdown_expires_witness:
  "modal_title ((countdown_tick 1 ^^ 15) (js_state (startTimer (html_doc\<lparr>level := 3\<rparr>))))
     = bear @ '' TIME'S UP!''"
proof -
  have st: "js_state (startTimer (html_doc\<lparr>level := 3\<rparr>)) =
      (clearInterval None (html_doc\<lparr>level := 3\<rparr>))\<lparr>timer_text := ''TIMER: '' @ js_num 15,
        intervals := (intervals (clearInterval None (html_doc\<lparr>level := 3\<rparr>)))(1 \<mapsto> 15),
        next_interval := Suc 1, timer := Some 1\<rparr>"
    by (simp add: startTimer_timed html_doc_def)
  show ?thesis
    using countdown_expires [of "js_state (startTimer (html_doc\<lparr>level := 3\<rparr>))" 1 15]
    unfolding st by (simp add: clearInterval_def html_doc_def)
qed

text \<open>
  C10. The race between the last click and the countdown: when the last balloon is hit
  while a countdown is scheduled, the hit ends the level as completed (in level 3,
  "GAME OVER"), the countdown is cancelled in the same handler, and its interval can no
  longer fire, so the level cannot also time out.
\<close>

theorem last_hit_beats_timer:
  assumes "game_inv s" and "area s = [e]" and "intervals s i = Some t"
  shows "modal_title (popBalloon (Elem e) s) = bear @ '' GAME OVER!''
     \<and> \<not> modal_hidden (popBalloon (Elem e) s) \<and> score (popBalloon (Elem e) s) = score s + 10
     \<and> intervals (popBalloon (Elem e) s) = Map.empty
     \<and> \<not> deliverable overlay (popBalloon (Elem e) s) (Tick i)"
proof -
  have lv: "level s = 3" and single: "dom (intervals s) \<subseteq> set_option (timer s)"
    using assms(1,3) by (auto simp: game_inv_def)
  have bal: "elems s e \<noteq> None" using assms(1,2) by (auto simp: game_inv_def dom_wf_def)
  have pb: "popBalloon (Elem e) s = endLevel False (popped e s)"
    using bal assms(2) by (simp add: popBalloon_balloon)
  have "intervals (endLevel False (popped e s)) = Map.empty"
    using single by (intro endLevel_cancels) simp
  then show ?thesis
    using pb lv by (simp add: modal_title_endLevel title_game_over_def)
qed

theorem last_hit_beats_timer_witness:
  "modal_title (popBalloon (Elem 0) (html_doc\<lparr>level := 3, area := [0],
      elems := [0 \<mapsto> drawn_balloon rnd_half (levels ! 2) 0], next_elem := 1,
      intervals := [1 \<mapsto> 1], timer := Some 1, next_interval := 2\<rparr>)) = bear @ '' GAME OVER!''
   \<and> \<not> deliverable True (popBalloon (Elem 0) (html_doc\<lparr>level := 3, area := [0],
      elems := [0 \<mapsto> drawn_balloon rnd_half (levels ! 2) 0], next_elem := 1,
      intervals := [1 \<mapsto> 1], timer := Some 1, next_interval := 2\<rparr>)) (Tick 1)"
proof -
  have "game_inv (html_doc\<lparr>level := 3, area := [0],
      elems := [0 \<mapsto> drawn_balloon rnd_half (levels ! 2) 0], next_elem := 1,
      intervals := [1 \<mapsto> 1], timer := Some 1, next_interval := 2\<rparr>)"
    by (simp add: game_inv_def html_doc_def dom_wf_def)
  then show ?thesis
    using last_hit_beats_timer [of _ 0 1 1 True] by simp
qed

text \<open>
  C11. A click the browser delivers on a balloon of the target area scores 10 points and
  removes exactly that balloon; the removed balloon can no longer receive a click, so
  a balloon scores once through the page.
\<close>

theorem hit_counts_once:
  assumes "game_inv s" and "deliverable overlay s (Click (Elem e))"
  shows "score (popBalloon (Elem e) s) = score s + 10
     \<and> Suc (length (area (popBalloon (Elem e) s))) = length (area s)
     \<and> \<not> deliverable overlay (popBalloon (Elem e) s) (Click (Elem e))"
proof -
  have e: "e \<in> set (area s)" using assms(2) by simp
  have d: "distinct (area s)" and bal: "elems s e \<noteq> None"
    using assms(1) e by (auto simp: game_inv_def dom_wf_def)
  show ?thesis
    using popBalloon_hit [OF bal] length_removeAll_distinct [OF d e] by simp
qed

theorem hit_counts_once_witness:
  "score (popBalloon (Elem 0) loaded_page) = 10
   \<and> \<not> deliverable True (popBalloon (Elem 0) loaded_page) (Click (Elem 0))"
proof -
  have "deliverable True loaded_page (Click (Elem 0))" using loaded_page_facts by simp
  then show ?thesis
    using hit_counts_once [OF reachable_game_inv [OF loaded_page_reachable]] loaded_page_facts
    by simp
qed

text \<open>
  C12. \<open>popBalloon\<close> recognises a balloon by its class only, which a removed
  element keeps: invoked twice on the same balloon, the handler scores twice and plays
  the sound twice. The spec's idempotence property (a second hit on a removed target is
  a no-op) holds only for clicks dispatched by the browser (C11).
\<close>

theorem removed_balloon_scores_again:
  assumes "dom_wf s" and "e \<in> set (area s)"
  shows "score (popBalloon (Elem e) (popBalloon (Elem e) s)) = score s + 20
     \<and> sound_plays (popBalloon (Elem e) (popBalloon (Elem e) s)) = Suc (Suc (sound_plays s))"
proof -
  have bal: "elems s e \<noteq> None" using assms by (auto simp: dom_wf_def)
  then have bal2: "elems (popBalloon (Elem e) s) e \<noteq> None" by (simp add: popBalloon_hit)
  show ?thesis using popBalloon_hit [OF bal] popBalloon_hit [OF bal2] by simp
qed

theorem removed_balloon_scores_again_witness:
  "score (popBalloon (Elem 0) (popBalloon (Elem 0) loaded_page)) = 20"
proof -
  have "dom_wf loaded_page"
    using reachable_game_inv [OF loaded_page_reachable] by (simp add: game_inv_def)
  then show ?thesis
    using removed_balloon_scores_again [of loaded_page 0] loaded_page_facts by simp
qed

text \<open>
  C13. In levels 1 and 2 no countdown is ever scheduled in a reachable page, so no
  interval can fire there.
\<close>

theorem untimed_levels_never_tick:
  assumes "reachable overlay rnd s" and "level s < 3"
  shows "intervals s = Map.empty \<and> (\<forall>i. \<not> deliverable overlay s (Tick i))"
  using reachable_game_inv [OF assms(1)] assms(2)
  by (auto simp: game_inv_def fun_eq_iff)

theorem untimed_levels_never_tick_witness:
  "\<forall>i. \<not> deliverable True loaded_page (Tick i)"
  using untimed_levels_never_tick [OF loaded_page_reachable] loaded_page_facts by simp

subsection \<open>The title test and the score display\<close>

text \<open>
  C14. The title test of \<open>nextLevel\<close> (line 125) is exact on every page the script
  reaches: while a summary is shown, \<open>level === 3\<close> and the title containing
  \<open>GAME OVER\<close> hold together exactly when the summary is the game-over one, so the
  text coupling the spec's design notes call fragile never confuses a time-out or a
  cleared level with the end of the game.
\<close>

theorem game_over_test_exact:
  assumes "reachable overlay rnd s" and "\<not> modal_hidden s"
  shows "(level s = 3 \<and> js_includes (modal_title s) ''GAME OVER'')
           \<longleftrightarrow> modal_title s = bear @ '' GAME OVER!''"
proof -
  have "summary_ok s" using reachable_game_inv [OF assms(1)] assms(2) by (simp add: game_inv_def)
  moreover have "bear @ '' GAME OVER!'' = title_game_over" by (simp add: title_game_over_def)
  ultimately show ?thesis by (auto simp: summary_ok_def)
qed

theorem game_over_test_exact_witness:
  "level time_up_page = 3 \<and> \<not> js_includes (modal_title time_up_page) ''GAME OVER''"
  using game_over_test_exact [OF time_up_page_facts(1,2)] time_up_page_facts(3,4)
  by (simp add: titles_defs)

text \<open>
  C15. After \<open>updateScore\<close> the score display reads \<open>POINTS: \<close> followed by a
  number that parses back to the new score, negative or not.
\<close>

theorem score_display_roundtrip:
  "take 8 (score_text (updateScore points s)) = ''POINTS: ''
   \<and> read_int (drop 8 (score_text (updateScore points s))) = Some (score (updateScore points s))"
  by (simp add: updateScore_def Let_def read_int_js_num)

subsection \<open>Invariants of the reachable pages\<close>

text \<open>
  C16. While a level is in progress (the modal hidden) the target area holds at least one
  balloon, no balloon twice, and each of them is a balloon the script created: the count
  of live targets is the length of the area, and a level in progress never sits with an
  empty area.
\<close>

theorem level_targets_consistent:
  assumes "reachable overlay rnd s" and "modal_hidden s"
  shows "area s \<noteq> [] \<and> distinct (area s) \<and> (\<forall>e \<in> set (area s). elems s e \<noteq> None)"
  using reachable_game_inv [OF assms(1)] assms(2) by (auto simp: game_inv_def dom_wf_def)

theorem level_targets_consistent_witness:
  "length (area loaded_page) = 15 \<and> elems loaded_page 14 \<noteq> None"
  using level_targets_consistent [OF loaded_page_reachable loaded_page_facts(4)] loaded_page_facts(3)
  by simp

text \<open>
  C17. In every reachable page the score is a non-negative multiple of 10.
\<close>

theorem score_multiple_of_ten:
  assumes "reachable overlay rnd s"
  shows "0 \<le> score s \<and> 10 dvd score s"
  using reachable_game_inv [OF assms] by (simp add: game_inv_def)

theorem score_multiple_of_ten_witness: "0 \<le> score time_up_page \<and> score time_up_page = 300"
  using score_multiple_of_ten [OF time_up_page_facts(1)] time_up_page_facts(5) by simp

subsection \<open>Runs of a whole level\<close>

text \<open>
  C18. Clicking every balloon of a level in progress, in the order of the area, is a run
  the browser delivers; it adds 10 points per balloon, empties the area, cancels any
  countdown and shows "GREAT JOB" below level 3 and "GAME OVER" in level 3.
\<close>

theorem clearing_level_completes:
  assumes "reachable overlay rnd s" and "modal_hidden s"
  shows "\<exists>s'. run overlay rnd s (clicks (area s)) = Some s'
     \<and> score s' = score s + 10 * int (length (area s)) \<and> level s' = level s \<and> area s' = []
     \<and> \<not> modal_hidden s' \<and> intervals s' = Map.empty
     \<and> modal_title s' = (if level s < 3 then bear @ '' GREAT JOB!'' else bear @ '' GAME OVER!'')"
proof -
  have inv: "game_inv s" using reachable_game_inv [OF assms(1)] .
  have single: "dom (intervals (cleared s)) \<subseteq> set_option (timer (cleared s))"
    using inv by (simp add: game_inv_def)
  show ?thesis
    using run_pop_all [OF inv assms(2)] endLevel_cancels [OF single, of False]
    by (simp add: modal_title_endLevel titles_defs)
qed

theorem clearing_level_completes_witness:
  "\<exists>s'. run True rnd_half loaded_page (clicks [0..<15]) = Some s' \<and> score s' = 150
     \<and> modal_title s' = bear @ '' GREAT JOB!''"
  using clearing_level_completes [OF loaded_page_reachable [of True] loaded_page_facts(4)]
    loaded_page_facts
  by (simp del: upt_Suc) blast

text \<open>
  C19. If the shown modal does not cover the target area (\<open>overlay\<close> false), the
  balloons left after a time-out stay clickable: clicking them all scores 200 more points
  and replaces the "TIME'S UP" summary by "GAME OVER", so a timed-out level 3 can end
  as a completed game, and \<open>endLevel\<close> runs twice for one level.
\<close>

theorem time_up_then_game_over_without_overlay:
  "\<exists>s s'. reachable False rnd_half s \<and> \<not> modal_hidden s \<and> modal_title s = bear @ '' TIME'S UP!''
     \<and> run False rnd_half s (clicks (area s)) = Some s'
     \<and> modal_title s' = bear @ '' GAME OVER!'' \<and> score s' = score s + 200"
proof -
  obtain P where r: "reachable False rnd_half P" and h: "\<not> modal_hidden P"
    and t: "modal_title P = title_time_up" and l: "level P = 3" and a: "area P = [30..<50]"
    using time_up_run_result [of False] by blast
  have run: "run False rnd_half P (clicks (area P)) = Some (endLevel False (cleared P))"
    using reachable_game_inv [OF r] a by (intro run_pop_shown) simp_all
  have len: "length (area P) = 20" using a by simp
  show ?thesis
    using r h t l run len
    by (intro exI [of _ P] exI [of _ "endLevel False (cleared P)"])
       (simp add: modal_title_endLevel titles_defs)
qed

subsection \<open>Balloon generation\<close>

text \<open>
  C20. The balloon loop terminates for every configuration: \<open>generateBalloons\<close>
  returns after appending \<open>numBalloons\<close> fresh elements in order, the \<open>k\<close>-th built
  from random draws \<open>2k\<close> and \<open>2k + 1\<close>.
\<close>

theorem generateBalloons_terminates:
  "\<exists>s'. generateBalloons rnd (Some c) s = Inr s'
     \<and> area s' = [next_elem s ..< next_elem s + nat (numBalloons c)]
     \<and> next_elem s' = next_elem s + nat (numBalloons c)
     \<and> draws s' = draws s + 2 * nat (numBalloons c)
     \<and> (\<forall>e \<in> set (area s'). elems s' e = Some (drawn_balloon rnd c (draws s + 2 * (e - next_elem s))))"
  by (simp add: generateBalloons_Some loop_result_draws loop_result_elems_new)

theorem generateBalloons_terminates_witness:
  "\<exists>s'. generateBalloons rnd_half (Some (levels ! 0)) html_doc = Inr s' \<and> length (area s') = 15"
  using generateBalloons_terminates [of rnd_half "levels ! 0" html_doc]
  by (auto simp: levels_def html_doc_def)

subsection \<open>Refinement of the spec's level state machine\<close>

text \<open>
  C21. When the shown modal blocks clicks on the balloons, the script implements the
  spec's level lifecycle: the session read off every reachable page (score, level,
  remaining time, live targets, phase) is reachable in the spec's machine of section 4,
  from AwaitingInput at level 1 with score 0, by target hits, countdown ticks, time-outs
  and \<open>advance()\<close>.
\<close>

theorem refines_spec_machine:
  assumes "reachable True rnd s"
  shows "spec_reach (abs_page s)"
  using assms
proof (induction rule: reachable.induct)
  case (load d)
  then show ?case using abs_load_script [OF load.hyps, of rnd] spec_reach.init by simp
next
  case (step s ev)
  have "game_inv s" using reachable_game_inv [OF step.hyps(1)] .
  then consider "spec_step (abs_page s) (abs_page (dispatch rnd ev s))"
    | "abs_page (dispatch rnd ev s) = abs_page s"
    using dispatch_simulates [OF _ step.hyps(2)] by blast
  then show ?case using step.IH spec_reach.step by cases simp_all
qed

theorem refines_spec_machine_witness:
  "spec_reach (abs_page time_up_page) \<and> s_phase (abs_page time_up_page) = TimeUpSummary"
  using refines_spec_machine [OF time_up_page_facts(1)] time_up_page_facts(2,3)
  by (simp add: abs_page_def phase_of_def)

text \<open>
  C22. Without that assumption the refinement fails: with a modal that lets clicks
  through, a reachable "TIME'S UP" page accepts a click on a left-over balloon whose
  effect (10 more points under the same summary) is no step of the spec's machine.
\<close>

theorem spec_machine_needs_overlay:
  "\<exists>s ev. reachable False rnd_half s \<and> deliverable False s ev
     \<and> \<not> spec_step (abs_page s) (abs_page (dispatch rnd_half ev s))
     \<and> abs_page (dispatch rnd_half ev s) \<noteq> abs_page s"
proof -
  obtain P where r: "reachable False rnd_half P" and h: "\<not> modal_hidden P"
    and t: "modal_title P = title_time_up" and a: "area P = [30..<50]"
    using time_up_run_result [of False] by blast
  have bal: "elems P 30 \<noteq> None"
    using reachable_game_inv [OF r] a by (auto simp: game_inv_def dom_wf_def)
  have "area (popped 30 P) \<noteq> []" using a by simp
  then have pb: "dispatch rnd_half (Click (Elem 30)) P = popped 30 P"
    using bal by (simp add: dispatch_def popBalloon_balloon)
  have ph: "s_phase (abs_page P) = TimeUpSummary" "s_phase (abs_page (popped 30 P)) = TimeUpSummary"
    using h t by (simp_all add: abs_page_def phase_of_def)
  have "\<not> spec_step (abs_page P) (abs_page (popped 30 P))"
    using spec_step_from_time_up ph by fastforce
  moreover have "abs_page (popped 30 P) \<noteq> abs_page P" by (simp add: abs_page_def)
  moreover have "deliverable False P (Click (Elem 30))" using a by simp
  ultimately show ?thesis using r pb by metis
qed

subsection \<open>The summary as a barrier\<close>

text \<open>
  C23. With a modal that blocks clicks, while a summary is shown the only event the page
  accepts is the modal's button: no balloon can be hit and no countdown can fire, so a
  level ends exactly once and its summary can only be left through \<open>nextLevel\<close>.
\<close>

theorem summary_accepts_only_continue:
  assumes "reachable True rnd s" and "\<not> modal_hidden s" and "deliverable True s ev"
  shows "ev = Continue"
proof (cases ev)
  case (Tick i)
  then show ?thesis
    using assms game_inv_shown_idle [OF reachable_game_inv [OF assms(1)] assms(2)] by simp
next
  case (Click t)
  then show ?thesis using assms by (cases t) auto
next
  case Continue
  then show ?thesis .
qed

theorem summary_accepts_only_continue_witness:
  "deliverable True time_up_page Continue \<and> \<not> deliverable True time_up_page (Click (Elem 30))"
  using summary_accepts_only_continue [OF time_up_page_facts(1,2), of "Click (Elem 30)"]
    time_up_page_facts(2)
  by simp

end
